theory Spec2Isabelle
  imports Main
begin

section \<open>Python strings\<close>

text \<open>
  The string operations the two source files use, on byte strings (Python 2 \<open>str\<close>).
  Every separator in the sources is a single character.
\<close>

fun split_max :: "char \<Rightarrow> nat \<Rightarrow> string \<Rightarrow> string list" where
  "split_max sep n [] = [[]]"
| "split_max sep n (c # cs) =
     (if c = sep \<and> 0 < n then [] # split_max sep (n - 1) cs
      else (case split_max sep n cs of
              x # xs \<Rightarrow> (c # x) # xs
            | [] \<Rightarrow> [[c]]))"

text \<open>\<open>s.split(sep)\<close>: no bound on the number of cuts.\<close>

definition split_str :: "char \<Rightarrow> string \<Rightarrow> string list" where
  "split_str sep s = split_max sep (length s) s"

text \<open>\<open>s.rsplit(sep, n)\<close>: at most \<open>n\<close> cuts, taken from the right.\<close>

definition rsplit :: "char \<Rightarrow> nat \<Rightarrow> string \<Rightarrow> string list" where
  "rsplit sep n s = rev (map rev (split_max sep n (rev s)))"

definition lower_char :: "char \<Rightarrow> char" where
  "lower_char c =
     (case map_of (zip ''ABCDEFGHIJKLMNOPQRSTUVWXYZ'' ''abcdefghijklmnopqrstuvwxyz'') c of
        Some d \<Rightarrow> d
      | None \<Rightarrow> c)"

definition lower :: "string \<Rightarrow> string" where
  "lower s = map lower_char s"

definition startswith :: "string \<Rightarrow> string \<Rightarrow> bool" where
  "startswith s p = (take (length p) s = p)"

text \<open>\<open>os.path.join(a, b)\<close> of posixpath, for two components.\<close>

definition os_path_join :: "string \<Rightarrow> string \<Rightarrow> string" where
  "os_path_join a b =
     (if startswith b ''/'' then b
      else if a = [] \<or> (a \<noteq> [] \<and> last a = CHR ''/'') then a @ b
      else a @ ''/'' @ b)"

section \<open>Exceptions\<close>

datatype py_error =
    NameError string
  | KeyError string
  | IndexError
  | TypeError
  | AttributeError string
  | HTTPUnauthorized string
  | Exception string
  | Timeout string
  | ValueError

section \<open>handlers/base.py: the trigger headers of a request\<close>

type_synonym hdict = "string \<rightharpoonup> string"

definition available_assignation_headers :: "string list" where
  "available_assignation_headers =
     [''X-Vertigo-Onget'', ''X-Vertigo-Ondelete'', ''X-Vertigo-Onput'', ''X-Vertigo-Ontimer'']"

definition available_deletion_headers :: "string list" where
  "available_deletion_headers =
     [''X-Vertigo-Onget-Delete'', ''X-Vertigo-Ondelete-Delete'', ''X-Vertigo-Onput-Delete'',
      ''X-Vertigo-Ontimer-Delete'', ''X-Vertigo-Delete'']"

text \<open>
  \<open>xs[1]\<close> on the list a split returns: IndexError when the list has one element.
\<close>

definition index1 :: "'a list \<Rightarrow> py_error + 'a" where
  "index1 xs = (case xs of _ # y # _ \<Rightarrow> Inr y | _ \<Rightarrow> Inl IndexError)"

text \<open>
  \<open>get_mc_assignation_data\<close>, on the headers of \<open>self.request\<close>. The method reads the
  request headers and nothing else: it has no access to the store, the cache or the sandbox.
\<close>

definition get_mc_assignation_data :: "hdict \<Rightarrow> py_error + (string \<times> string)" where
  "get_mc_assignation_data request_headers =
     (let header = filter (\<lambda>i. i \<in> dom request_headers) available_assignation_headers
      in if 1 < length header then
           Inl (HTTPUnauthorized
                  (''Vertigo - The system can only set 1 microcontroller each time.'' @ [CHR 0x0A]))
         else (case header of
                 [] \<Rightarrow> Inl IndexError
               | h # _ \<Rightarrow>
                   (case request_headers h of
                      None \<Rightarrow> Inl (KeyError h)
                    | Some mc \<Rightarrow>
                        (case index1 (rsplit CHR ''-'' 1 h) of
                           Inl err \<Rightarrow> Inl err
                         | Inr t \<Rightarrow> Inr (lower t, mc)))))"

definition get_mc_deletion_data :: "hdict \<Rightarrow> py_error + (string \<times> string)" where
  "get_mc_deletion_data request_headers =
     (let header = filter (\<lambda>i. i \<in> dom request_headers) available_deletion_headers
      in if 1 < length header then
           Inl (HTTPUnauthorized
                  (''Vertigo - The system can only delete 1 microcontroller each time.'' @ [CHR 0x0A]))
         else (case header of
                 [] \<Rightarrow> Inl IndexError
               | h # _ \<Rightarrow>
                   (case request_headers h of
                      None \<Rightarrow> Inl (KeyError h)
                    | Some mc \<Rightarrow>
                        (case index1 (rsplit CHR ''-'' 2 h) of
                           Inl err \<Rightarrow> Inl err
                         | Inr t \<Rightarrow> Inr (lower t, mc)))))"

section \<open>The world outside the process\<close>

type_synonym fd = nat

text \<open>
  One entry of \<open>fdmd\<close> is a Python dict from strings to an integer or a string. The value of
  \<open>json.dumps(headers)\<close> is kept structured (\<open>MJson\<close>): the dict of header dicts it
  serialises.
\<close>

datatype md_value = MInt int | MStr string | MJson "(string \<times> hdict) list"

type_synonym fd_md = "string \<rightharpoonup> md_value"

record SBusDatagram =
  dtg_files :: "fd option list"
  dtg_metadata :: "fd_md list"
  dtg_command :: int

datatype json = JNull | JBool bool | JNum int | JStr string | JArr "json list"
  | JObj "(string \<times> json) list"

text \<open>
  Every effect the code has on its surroundings is an event, appended to the trace of the
  world in the order the code performs it.
\<close>

datatype event =
    LogInfo string
  | LogError string
  | Popen string
  | SubprocessCall string
  | Print int
  | Sleep nat
  | SwiftRequest string string string string
  | Makedirs string
  | FileWrite string string
  | FileOpen string string fd
  | Pipe fd fd
  | Close fd
  | SBusSend string SBusDatagram
  | Select "fd list" int
  | Read fd nat

record world =
  trace :: "event list"
  next_fd :: fd
  open_fds :: "fd set"
  fs_dirs :: "string set"
  containers :: "string list"

record swift_response =
  sr_status_int :: int
  sr_headers :: hdict
  sr_body :: string

text \<open>
  What the surroundings answer. \<open>make_swift_request\<close> and \<open>read_metadata\<close> belong to the
  module \<open>vertigo_common\<close>, \<open>SBus.send\<close> to the SBus facade; they are parameters here, as are
  the results of the process listing, of the launch commands, of \<open>select.select\<close>, of
  \<open>os.read\<close> and of \<open>json.loads\<close> (\<open>None\<close>: it raises ValueError). The store answers the
  same request in the same way for the duration of one call.
\<close>

record env =
  popen_read :: "string \<Rightarrow> string"
  internal_client_rc :: int
  launch_rc :: int
  make_swift_request :: "string \<Rightarrow> string \<Rightarrow> string \<Rightarrow> string \<Rightarrow> swift_response"
  read_metadata :: "fd \<Rightarrow> (string \<times> string) list option"
  SBus_send_rc :: int
  select_ready :: bool
  os_read :: string
  json_loads :: "string \<Rightarrow> json option"

definition emit :: "event \<Rightarrow> world \<Rightarrow> world" where
  "emit ev w = w\<lparr>trace := trace w @ [ev]\<rparr>"

text \<open>\<open>os.pipe()\<close>: two fresh descriptors, the read end first.\<close>

definition os_pipe :: "world \<Rightarrow> (fd \<times> fd) \<times> world" where
  "os_pipe w =
     (let r = next_fd w; wr = next_fd w + 1
      in ((r, wr),
          emit (Pipe r wr) (w\<lparr>next_fd := next_fd w + 2, open_fds := open_fds w \<union> {r, wr}\<rparr>)))"

text \<open>\<open>open(path, mode)\<close>: a fresh descriptor.\<close>

definition py_open :: "string \<Rightarrow> string \<Rightarrow> world \<Rightarrow> fd \<times> world" where
  "py_open path mode w =
     (let f = next_fd w
      in (f, emit (FileOpen path mode f) (w\<lparr>next_fd := next_fd w + 1, open_fds := open_fds w \<union> {f}\<rparr>)))"

text \<open>\<open>os.close(fd)\<close> and \<open>file.close()\<close>.\<close>

definition os_close :: "fd \<Rightarrow> world \<Rightarrow> world" where
  "os_close f w = emit (Close f) (w\<lparr>open_fds := open_fds w - {f}\<rparr>)"

definition os_makedirs :: "string \<Rightarrow> world \<Rightarrow> world" where
  "os_makedirs path w = emit (Makedirs path) (w\<lparr>fs_dirs := fs_dirs w \<union> {path}\<rparr>)"

text \<open>
  \<open>subprocess.call\<close> of the \<open>docker run --name\<close> command. The container runtime refuses a
  name that is in use (exit status 125); otherwise the launch succeeds (status 0, the
  sandbox runs under that name) or fails for another cause with the status \<open>launch_rc\<close>.
\<close>

definition docker_run :: "env \<Rightarrow> string \<Rightarrow> string \<Rightarrow> world \<Rightarrow> int \<times> world" where
  "docker_run e name cmd w =
     (let w1 = emit (SubprocessCall cmd) w
      in if name \<in> set (containers w1) then (125, w1)
         else if launch_rc e = 0 then (0, w1\<lparr>containers := name # containers w1\<rparr>)
         else (launch_rc e, w1))"

text \<open>What the trace says: the datagrams handed to \<open>SBus.send\<close>, the waits, the closes.\<close>

fun sends :: "event list \<Rightarrow> (string \<times> SBusDatagram) list" where
  "sends [] = []"
| "sends (SBusSend path dtg # evs) = (path, dtg) # sends evs"
| "sends (_ # evs) = sends evs"

fun selects :: "event list \<Rightarrow> nat" where
  "selects [] = 0"
| "selects (Select _ _ # evs) = Suc (selects evs)"
| "selects (_ # evs) = selects evs"

fun closes :: "fd \<Rightarrow> event list \<Rightarrow> nat" where
  "closes f [] = 0"
| "closes f (Close f' # evs) = (if f' = f then Suc (closes f evs) else closes f evs)"
| "closes f (_ # evs) = closes f evs"


section \<open>vertigo_docker_gateway.py: VertigoGatewayDocker\<close>

definition MC_MAIN_HEADER :: string where
  "MC_MAIN_HEADER = ''X-Object-Meta-Handler-Main''"

definition MC_DEP_HEADER :: string where
  "MC_DEP_HEADER = ''X-Object-Meta-Handler-Library-Dependency''"

definition SBUS_FD_INPUT_OBJECT :: int where
  "SBUS_FD_INPUT_OBJECT = 0"

definition SBUS_FD_OUTPUT_OBJECT :: int where
  "SBUS_FD_OUTPUT_OBJECT = 1"

definition SBUS_FD_OUTPUT_OBJECT_METADATA :: int where
  "SBUS_FD_OUTPUT_OBJECT_METADATA = 2"

definition SBUS_FD_LOGGER :: int where
  "SBUS_FD_LOGGER = 4"

definition SBUS_CMD_EXECUTE :: int where
  "SBUS_CMD_EXECUTE = 1"

text \<open>The configuration is a dict whose keys the deployment fixes: a record.\<close>

record conf =
  conf_execution_server :: string
  conf_mc_timeout :: int
  conf_mc_container :: string
  conf_mc_dependency :: string
  conf_docker_repo :: string
  conf_pipes_dir :: string
  conf_mc_dir :: string
  conf_log_dir :: string
  conf_mc_pipe :: string

record request =
  req_headers :: hdict
  req_body :: string

text \<open>
  The original response: \<open>environ["REQUEST_METHOD"]\<close>, \<open>app_iter._fp\<close>,
  \<open>app_iter._data_file\<close> and \<open>headers\<close>.
\<close>

record orig_response =
  or_request_method :: string
  or_fp :: fd
  or_data_file :: string
  or_headers :: hdict

text \<open>
  The gateway object. \<open>gw_req\<close> is the request object of the caller itself (the constructor
  stores the reference), so what a method writes into \<open>gw_req\<close> the caller sees afterwards.
  The logger is the trace of the world; \<open>app\<close> and \<open>version\<close> are not used by the methods
  below.
\<close>

record gateway =
  gw_req :: request
  gw_orig_resp :: orig_response
  gw_conf :: conf
  gw_account :: string
  gw_container :: string
  gw_obj :: string
  gw_scope :: string
  gw_file_path :: "string option"
  gw_current_server :: string
  gw_mc_timeout :: int
  gw_mc_container :: string
  gw_mc_dependency :: string
  gw_mc_list :: "string list option"
  gw_mc_metadata :: "string \<rightharpoonup> hdict"
  gw_docker_img_prefix :: string
  gw_docker_repo :: string

definition VertigoGatewayDocker_init ::
  "request \<Rightarrow> orig_response \<Rightarrow> conf \<Rightarrow> string \<Rightarrow> string \<Rightarrow> string \<Rightarrow> gateway" where
  "VertigoGatewayDocker_init req orig_resp cf account container obj =
     \<lparr>gw_req = req, gw_orig_resp = orig_resp, gw_conf = cf, gw_account = account,
      gw_container = container, gw_obj = obj,
      gw_scope = take 13 (drop 5 account),
      gw_file_path = None,
      gw_current_server = conf_execution_server cf,
      gw_mc_timeout = conf_mc_timeout cf,
      gw_mc_container = conf_mc_container cf,
      gw_mc_dependency = conf_mc_dependency cf,
      gw_mc_list = None,
      gw_mc_metadata = Map.empty,
      gw_docker_img_prefix = ''vertigo'',
      gw_docker_repo = conf_docker_repo cf\<rparr>"




definition docker_container_name :: "gateway \<Rightarrow> string" where
  "docker_container_name g =
     (let account_id = (if startswith (lower (gw_account g)) ''auth_''
                        then drop (length ''auth_'') (gw_account g)
                        else gw_account g)
      in gw_docker_img_prefix g @ ''_'' @ account_id)"

definition docker_cmd :: "gateway \<Rightarrow> string" where
  "docker_cmd g =
     (let account_id = (if startswith (lower (gw_account g)) ''auth_''
                        then drop (length ''auth_'') (gw_account g)
                        else gw_account g);
          docker_image_name = gw_docker_repo g @ ''/'' @ account_id;
          host_pipe_prefix = conf_pipes_dir (gw_conf g) @ ''/'' @ gw_scope g;
          sandbox_pipe_prefix = ''/mnt/channels'';
          pipe_mount = host_pipe_prefix @ '':'' @ sandbox_pipe_prefix;
          host_storlet_prefix = conf_mc_dir (gw_conf g) @ ''/'' @ gw_scope g;
          sandbox_storlet_dir_prefix = ''/home/swift'';
          mc_mount = host_storlet_prefix @ '':'' @ sandbox_storlet_dir_prefix
      in ''sudo docker run --net=none --name '' @ docker_container_name g @
         '' -d -v /dev/log:/dev/log -v '' @ pipe_mount @ '' -v '' @ mc_mount @
         '' -i -t '' @ docker_image_name @ '' debug /home/swift/start_daemon.sh'')"

text \<open>
  \<open>start_container\<close>: the exit status of the launch selects one of two log lines; no branch
  raises.
\<close>

definition start_container :: "env \<Rightarrow> gateway \<Rightarrow> world \<Rightarrow> (py_error + unit) \<times> world" where
  "start_container e g w =
     (let name = docker_container_name g;
          cmd = docker_cmd g;
          w1 = emit (LogInfo (''Vertigo - Starting container '' @ name @ '' ...'')) w;
          (p, w2) = docker_run e name cmd w1
      in if p = 0 then
           (Inr (), emit (LogInfo (''Vertigo - Container '' @ name @ '' started''))
                      (emit (Sleep 1) w2))
         else
           (Inr (), emit (LogInfo (''Vertigo - Container '' @ name @ '' is already started'')) w2))"

definition set_microcontroller_list :: "gateway \<Rightarrow> string \<Rightarrow> gateway" where
  "set_microcontroller_list g mc_list = g\<lparr>gw_mc_list := Some (split_str CHR '','' mc_list)\<rparr>"

text \<open>
  \<open>self.mc_list == 'None'\<close> compares a list with a string: in Python a list and a string
  are never equal.
\<close>

definition py_list_eq_str :: "string list \<Rightarrow> string \<Rightarrow> bool" where
  "py_list_eq_str xs s = False"

text \<open>
  \<open>get_microcontrollers\<close>. \<open>if controller_md\<close> holds for a dict that is not empty;
  \<open>controller_md[...]\<close> raises KeyError on a missing key.
\<close>

definition get_microcontrollers :: "env \<Rightarrow> gateway \<Rightarrow> (py_error + bool) \<times> gateway" where
  "get_microcontrollers e g =
     (let req = or_request_method (gw_orig_resp g);
          f = or_fp (gw_orig_resp g);
          controller_md = read_metadata e f
      in case controller_md of
           None \<Rightarrow> (Inr False, g)
         | Some md \<Rightarrow>
             if md \<noteq> [] then
               (case map_of md (''on'' @ lower req) of
                  None \<Rightarrow> (Inl (KeyError (''on'' @ lower req)), g)
                | Some v \<Rightarrow>
                    (let mc_list = split_str CHR '','' v;
                         g1 = g\<lparr>gw_mc_list := Some mc_list\<rparr>
                     in if py_list_eq_str mc_list ''None'' then (Inr False, g1)
                        else (Inr True, g1)))
             else (Inr False, g))"

definition status_ok :: "swift_response \<Rightarrow> bool" where
  "status_ok resp = (sr_status_int resp < 300 \<and> sr_status_int resp \<ge> 200)"



section \<open>vertigo_docker_gateway.py: MicroController\<close>

text \<open>
  The two file attributes exist only after \<open>open()\<close>; reading one before raises
  AttributeError.
\<close>

record MicroController =
  mc_full_md_path :: string
  mc_full_log_path :: string
  mc_micro_controller :: string
  mc_main_class :: string
  mc_dependencies :: string
  mc_metadata_file :: "fd option"
  mc_logger_file :: "fd option"

text \<open>A list a split returns has a first element: \<open>xs[0]\<close>.\<close>

definition index0 :: "string list \<Rightarrow> string" where
  "index0 xs = (case xs of x # _ \<Rightarrow> x | [] \<Rightarrow> [])"

definition MicroController_init ::
  "string \<Rightarrow> string \<Rightarrow> string \<Rightarrow> string \<Rightarrow> string \<Rightarrow> world \<Rightarrow> MicroController \<times> world" where
  "MicroController_init file_path logger_path name main dependencies w =
     (let mc = \<lparr>mc_full_md_path =
                   os_path_join file_path (index0 (rsplit CHR ''.'' 1 name) @ ''.md''),
                mc_full_log_path =
                   os_path_join logger_path
                     (main @ ''/'' @ index0 (rsplit CHR ''.'' 1 name) @ ''.log''),
                mc_micro_controller = name,
                mc_main_class = main,
                mc_dependencies = dependencies,
                mc_metadata_file = None,
                mc_logger_file = None\<rparr>
      in if os_path_join logger_path main \<notin> fs_dirs w
         then (mc, os_makedirs (os_path_join logger_path main) w)
         else (mc, w))"

definition MicroController_open :: "MicroController \<Rightarrow> world \<Rightarrow> MicroController \<times> world" where
  "MicroController_open mc w =
     (let (f1, w1) = py_open (mc_full_md_path mc) ''a+'' w;
          (f2, w2) = py_open (mc_full_log_path mc) ''a'' w1
      in (mc\<lparr>mc_metadata_file := Some f1, mc_logger_file := Some f2\<rparr>, w2))"

definition get_mdfd :: "MicroController \<Rightarrow> py_error + fd" where
  "get_mdfd mc =
     (case mc_metadata_file mc of
        None \<Rightarrow> Inl (AttributeError ''metadata_file'')
      | Some f \<Rightarrow> Inr f)"

definition get_logfd :: "MicroController \<Rightarrow> py_error + fd" where
  "get_logfd mc =
     (case mc_logger_file mc of
        None \<Rightarrow> Inl (AttributeError ''logger_file'')
      | Some f \<Rightarrow> Inr f)"

definition get_name :: "MicroController \<Rightarrow> string" where
  "get_name mc = mc_micro_controller mc"

definition get_dependencies :: "MicroController \<Rightarrow> string" where
  "get_dependencies mc = mc_dependencies mc"

definition get_main :: "MicroController \<Rightarrow> string" where
  "get_main mc = mc_main_class mc"

definition MicroController_close :: "MicroController \<Rightarrow> world \<Rightarrow> (py_error + unit) \<times> world" where
  "MicroController_close mc w =
     (case mc_metadata_file mc of
        None \<Rightarrow> (Inl (AttributeError ''metadata_file''), w)
      | Some f1 \<Rightarrow>
          (let w1 = os_close f1 w
           in case mc_logger_file mc of
                None \<Rightarrow> (Inl (AttributeError ''logger_file''), w1)
              | Some f2 \<Rightarrow> (Inr (), os_close f2 w1)))"

section \<open>vertigo_docker_gateway.py: MicroControllerInvocationProtocol\<close>

record protocol =
  p_mc_pipe_path :: string
  p_mc_logger_path :: string
  p_timeout :: int
  p_req_md :: hdict
  p_file_md :: hdict
  p_mc_list :: "string list"
  p_mc_md :: "string \<rightharpoonup> hdict"
  p_file_path :: string
  p_micro_controllers :: "MicroController list"
  p_fds :: "fd option list"
  p_fdmd :: "fd_md list"
  p_response_read_fd :: "fd option"
  p_response_write_fd :: "fd option"
  p_null_read_fd :: "fd option"
  p_null_write_fd :: "fd option"
  p_task_id :: "string option"

definition MicroControllerInvocationProtocol_init ::
  "string \<Rightarrow> string \<Rightarrow> string \<Rightarrow> hdict \<Rightarrow> hdict \<Rightarrow> string list \<Rightarrow> (string \<rightharpoonup> hdict) \<Rightarrow> int
     \<Rightarrow> protocol" where
  "MicroControllerInvocationProtocol_init file_path mc_pipe_path mc_logger_path req_haders
       file_headers mc_list mc_metadata timeout =
     \<lparr>p_mc_pipe_path = mc_pipe_path,
      p_mc_logger_path = mc_logger_path,
      p_timeout = timeout,
      p_req_md = req_haders,
      p_file_md = file_headers,
      p_mc_list = mc_list,
      p_mc_md = mc_metadata,
      p_file_path = file_path,
      p_micro_controllers = [],
      p_fds = [],
      p_fdmd = [],
      p_response_read_fd = None,
      p_response_write_fd = None,
      p_null_read_fd = None,
      p_null_write_fd = None,
      p_task_id = None\<rparr>"

definition add_output_stream :: "protocol \<Rightarrow> protocol" where
  "add_output_stream p =
     p\<lparr>p_fds := p_fds p @ [p_response_write_fd p],
       p_fdmd := p_fdmd p @ [[''type'' \<mapsto> MInt SBUS_FD_OUTPUT_OBJECT]]\<rparr>"

text \<open>The body of the loop of \<open>_add_logger_stream\<close>, and the loop over the handlers.\<close>

fun add_logger_stream_loop :: "MicroController list \<Rightarrow> protocol \<Rightarrow> (py_error + unit) \<times> protocol" where
  "add_logger_stream_loop [] p = (Inr (), p)"
| "add_logger_stream_loop (mc # mcs) p =
     (case get_logfd mc of
        Inl err \<Rightarrow> (Inl err, p)
      | Inr f \<Rightarrow>
          add_logger_stream_loop mcs
            (p\<lparr>p_fds := p_fds p @ [Some f],
               p_fdmd := p_fdmd p @
                 [[''type'' \<mapsto> MInt SBUS_FD_LOGGER, ''handler'' \<mapsto> MStr (get_name mc)]]\<rparr>))"

definition add_logger_stream :: "protocol \<Rightarrow> (py_error + unit) \<times> protocol" where
  "add_logger_stream p = add_logger_stream_loop (p_micro_controllers p) p"

fun add_metadata_stream_loop :: "MicroController list \<Rightarrow> protocol \<Rightarrow> (py_error + unit) \<times> protocol" where
  "add_metadata_stream_loop [] p = (Inr (), p)"
| "add_metadata_stream_loop (mc # mcs) p =
     (case get_mdfd mc of
        Inl err \<Rightarrow> (Inl err, p)
      | Inr f \<Rightarrow>
          add_metadata_stream_loop mcs
            (p\<lparr>p_fds := p_fds p @ [Some f],
               p_fdmd := p_fdmd p @
                 [[''type'' \<mapsto> MInt SBUS_FD_OUTPUT_OBJECT_METADATA,
                   ''handler'' \<mapsto> MStr (get_name mc),
                   ''main'' \<mapsto> MStr (get_main mc),
                   ''dependencies'' \<mapsto> MStr (get_dependencies mc)]]\<rparr>))"

definition add_metadata_stream :: "protocol \<Rightarrow> (py_error + unit) \<times> protocol" where
  "add_metadata_stream p = add_metadata_stream_loop (p_micro_controllers p) p"

text \<open>
  \<open>_add_file_req_md\<close>: the two \<open>del\<close> act on \<open>self.req_md\<close>, the dict the constructor
  received.
\<close>

definition add_file_req_md :: "protocol \<Rightarrow> protocol" where
  "add_file_req_md p =
     (let p1 = p\<lparr>p_fds := p_fds p @ [p_null_write_fd p]\<rparr>;
          p2 = (if ''X-Service-Catalog'' \<in> dom (p_req_md p1)
                then p1\<lparr>p_req_md := (p_req_md p1)(''X-Service-Catalog'' := None)\<rparr>
                else p1);
          p3 = (if ''Cookie'' \<in> dom (p_req_md p2)
                then p2\<lparr>p_req_md := (p_req_md p2)(''Cookie'' := None)\<rparr>
                else p2);
          headers = [(''req_md'', p_req_md p3), (''file_md'', p_file_md p3)]
      in p3\<lparr>p_fdmd := p_fdmd p3 @
                [[''type'' \<mapsto> MInt SBUS_FD_INPUT_OBJECT, ''json_md'' \<mapsto> MJson headers]]\<rparr>)"

definition prepare_invocation_descriptors ::
  "protocol \<Rightarrow> world \<Rightarrow> (py_error + unit) \<times> protocol \<times> world" where
  "prepare_invocation_descriptors p w =
     (let ((r1, w1), wa) = os_pipe w;
          ((r2, w2), wb) = os_pipe wa;
          p1 = p\<lparr>p_response_read_fd := Some r1, p_response_write_fd := Some w1,
                 p_null_read_fd := Some r2, p_null_write_fd := Some w2\<rparr>;
          p2 = add_file_req_md p1;
          p3 = add_output_stream p2
      in case add_logger_stream p3 of
           (Inl err, p4) \<Rightarrow> (Inl err, p4, wb)
         | (Inr _, p4) \<Rightarrow>
             (case add_metadata_stream p4 of
                (Inl err, p5) \<Rightarrow> (Inl err, p5, wb)
              | (Inr _, p5) \<Rightarrow> (Inr (), p5, wb)))"

text \<open>\<open>if self.response_write_fd\<close>: neither None nor descriptor 0.\<close>

definition close_remote_side_descriptors :: "protocol \<Rightarrow> world \<Rightarrow> world" where
  "close_remote_side_descriptors p w =
     (case p_response_write_fd p of
        None \<Rightarrow> w
      | Some f \<Rightarrow> if f \<noteq> 0 then os_close f w else w)"

definition invoke :: "env \<Rightarrow> protocol \<Rightarrow> world \<Rightarrow> (py_error + unit) \<times> world" where
  "invoke e p w =
     (let dtg = \<lparr>dtg_files = p_fds p, dtg_metadata = p_fdmd p, dtg_command = SBUS_CMD_EXECUTE\<rparr>;
          rc = SBus_send_rc e;
          w1 = emit (SBusSend (p_mc_pipe_path p) dtg) w
      in if rc < 0 then (Inl (Exception ''Failed to send execute command''), w1)
         else (Inr (), w1))"

text \<open>
  \<open>if self.task_id\<close>: neither None nor the empty string. The class defines no method
  \<open>_cancel\<close>, so \<open>self._cancel()\<close> raises AttributeError.
\<close>

definition cancel :: "protocol \<Rightarrow> world \<Rightarrow> (py_error + unit) \<times> world" where
  "cancel p w = (Inl (AttributeError ''_cancel''), w)"

definition wait_for_read_with_timeout ::
  "env \<Rightarrow> protocol \<Rightarrow> fd \<Rightarrow> world \<Rightarrow> (py_error + unit) \<times> world" where
  "wait_for_read_with_timeout e p f w =
     (let w1 = emit (Select [f] (p_timeout p)) w;
          r = (if select_ready e then [f] else [])
      in if length r = 0 then
           (case (if p_task_id p \<noteq> None \<and> p_task_id p \<noteq> Some [] then cancel p w1
                  else (Inr (), w1)) of
              (Inl err, w2) \<Rightarrow> (Inl err, w2)
            | (Inr _, w2) \<Rightarrow>
                (Inl (Timeout ''Timeout while waiting for Micro-controller output''), w2))
         else (Inr (), w1))"

definition read_response :: "env \<Rightarrow> protocol \<Rightarrow> world \<Rightarrow> (py_error + json option) \<times> world" where
  "read_response e p w =
     (case p_response_read_fd p of
        None \<Rightarrow> (Inl TypeError, w)
      | Some f \<Rightarrow>
          (case wait_for_read_with_timeout e p f w of
             (Inl err, w1) \<Rightarrow> (Inl err, w1)
           | (Inr _, w1) \<Rightarrow>
               (let flat_json = os_read e;
                    w2 = emit (Read f 1024) w1
                in if flat_json = ''{}'' then (Inr None, w2)
                   else (case json_loads e flat_json of
                           None \<Rightarrow> (Inl ValueError, w2)
                         | Some v \<Rightarrow> (Inr (Some v), w2)))))"

text \<open>The first loop of \<open>communicate\<close>: one MicroController object per handler name.\<close>

fun communicate_create_loop ::
  "string list \<Rightarrow> protocol \<Rightarrow> world \<Rightarrow> (py_error + unit) \<times> protocol \<times> world" where
  "communicate_create_loop [] p w = (Inr (), p, w)"
| "communicate_create_loop (mc_name # names) p w =
     (case p_mc_md p mc_name of
        None \<Rightarrow> (Inl (KeyError mc_name), p, w)
      | Some h \<Rightarrow>
          (case h MC_MAIN_HEADER of
             None \<Rightarrow> (Inl (KeyError MC_MAIN_HEADER), p, w)
           | Some main \<Rightarrow>
               (case h MC_DEP_HEADER of
                  None \<Rightarrow> (Inl (KeyError MC_DEP_HEADER), p, w)
                | Some deps \<Rightarrow>
                    (let (mc, w1) = MicroController_init (p_file_path p) (p_mc_logger_path p)
                                      mc_name main deps w
                     in communicate_create_loop names
                          (p\<lparr>p_micro_controllers := p_micro_controllers p @ [mc]\<rparr>) w1))))"

text \<open>The second loop: \<open>mc.open()\<close> on every object of the list.\<close>

fun communicate_open_loop :: "MicroController list \<Rightarrow> world \<Rightarrow> MicroController list \<times> world" where
  "communicate_open_loop [] w = ([], w)"
| "communicate_open_loop (mc # mcs) w =
     (let (mc1, w1) = MicroController_open mc w;
          (mcs1, w2) = communicate_open_loop mcs w1
      in (mc1 # mcs1, w2))"

text \<open>The loop of the \<open>finally\<close> block: \<open>mc.close()\<close> on every object of the list.\<close>

fun communicate_close_loop :: "MicroController list \<Rightarrow> world \<Rightarrow> (py_error + unit) \<times> world" where
  "communicate_close_loop [] w = (Inr (), w)"
| "communicate_close_loop (mc # mcs) w =
     (case MicroController_close mc w of
        (Inl err, w1) \<Rightarrow> (Inl err, w1)
      | (Inr _, w1) \<Rightarrow> communicate_close_loop mcs w1)"

text \<open>
  The \<open>try\<close> statement of \<open>communicate\<close>. The \<open>finally\<close> block runs whether \<open>_invoke\<close>
  raised or not; an exception of the block itself replaces the one of \<open>_invoke\<close>.
\<close>

definition communicate_try_finally :: "env \<Rightarrow> protocol \<Rightarrow> world \<Rightarrow> (py_error + unit) \<times> world" where
  "communicate_try_finally e p w =
     (let (invoked, w1) = invoke e p w;
          w2 = close_remote_side_descriptors p w1
      in case communicate_close_loop (p_micro_controllers p) w2 of
           (Inl err, w3) \<Rightarrow> (Inl err, w3)
         | (Inr _, w3) \<Rightarrow>
             (case invoked of
                Inl err \<Rightarrow> (Inl err, w3)
              | Inr _ \<Rightarrow> (Inr (), w3)))"

text \<open>
  \<open>communicate\<close>. The read end of the response pipe is closed by the last statement but
  one, after \<open>_read_response\<close> has returned.
\<close>

definition communicate ::
  "env \<Rightarrow> protocol \<Rightarrow> world \<Rightarrow> (py_error + json option) \<times> protocol \<times> world" where
  "communicate e p w =
     (case communicate_create_loop (p_mc_list p) p w of
        (Inl err, p1, w1) \<Rightarrow> (Inl err, p1, w1)
      | (Inr _, p1, w1) \<Rightarrow>
          (let (mcs, w2) = communicate_open_loop (p_micro_controllers p1) w1;
               p2 = p1\<lparr>p_micro_controllers := mcs\<rparr>
           in case prepare_invocation_descriptors p2 w2 of
                (Inl err, p3, w3) \<Rightarrow> (Inl err, p3, w3)
              | (Inr _, p3, w3) \<Rightarrow>
                  (case communicate_try_finally e p3 w3 of
                     (Inl err, w4) \<Rightarrow> (Inl err, p3, w4)
                   | (Inr _, w4) \<Rightarrow>
                       (case read_response e p3 w4 of
                          (Inl err, w5) \<Rightarrow> (Inl err, p3, w5)
                        | (Inr out_data, w5) \<Rightarrow>
                            (case p_response_read_fd p3 of
                               None \<Rightarrow> (Inl TypeError, p3, w5)
                             | Some f \<Rightarrow> (Inr out_data, p3, os_close f w5))))))"

section \<open>vertigo_docker_gateway.py: execute_microcontrollers\<close>




section \<open>Vocabulary of the statements\<close>

text \<open>
  The main class and the dependency string a metadata dict holds for a handler name, the
  condition under which the lookups of both succeed, a handler object whose two files are
  open, and the object the first loop of \<open>communicate\<close> creates for a name (the object
  is the same in every world; only the directory it may create depends on the world).
\<close>

definition main_of :: "(string \<rightharpoonup> hdict) \<Rightarrow> string \<Rightarrow> string" where
  "main_of md n =
     (case md n of
        None \<Rightarrow> []
      | Some h \<Rightarrow> (case h MC_MAIN_HEADER of None \<Rightarrow> [] | Some m \<Rightarrow> m))"

definition deps_of :: "(string \<rightharpoonup> hdict) \<Rightarrow> string \<Rightarrow> string" where
  "deps_of md n =
     (case md n of
        None \<Rightarrow> []
      | Some h \<Rightarrow> (case h MC_DEP_HEADER of None \<Rightarrow> [] | Some d \<Rightarrow> d))"

definition descriptors_known :: "(string \<rightharpoonup> hdict) \<Rightarrow> string list \<Rightarrow> bool" where
  "descriptors_known md names =
     list_all (\<lambda>n. case md n of
                      None \<Rightarrow> False
                    | Some h \<Rightarrow> h MC_MAIN_HEADER \<noteq> None \<and> h MC_DEP_HEADER \<noteq> None) names"

definition opened :: "MicroController \<Rightarrow> bool" where
  "opened mc = (mc_metadata_file mc \<noteq> None \<and> mc_logger_file mc \<noteq> None)"

definition new_mc :: "protocol \<Rightarrow> string \<Rightarrow> MicroController" where
  "new_mc p n =
     fst (MicroController_init (p_file_path p) (p_mc_logger_path p) n
            (main_of (p_mc_md p) n) (deps_of (p_mc_md p) n)
            \<lparr>trace = [], next_fd = 0, open_fds = {}, fs_dirs = {}, containers = []\<rparr>)"

text \<open>
  What the store says about a chain: the headers it returns for a handler name, whether a
  handler and a dependency pass the existence check of \<open>verify_access\<close>, the dependencies
  the metadata of a handler declares, and whether that metadata names both the main class
  and the dependency string. A handler resolves when it and every dependency it declares
  pass the check.
\<close>

definition store_headers :: "env \<Rightarrow> gateway \<Rightarrow> string \<Rightarrow> hdict" where
  "store_headers e g n =
     sr_headers (make_swift_request e ''HEAD'' (gw_account g) (gw_mc_container g) n)"

definition handler_exists :: "env \<Rightarrow> gateway \<Rightarrow> string \<Rightarrow> bool" where
  "handler_exists e g n =
     status_ok (make_swift_request e ''HEAD'' (gw_account g) (gw_mc_container g) n)"

definition dependency_exists :: "env \<Rightarrow> gateway \<Rightarrow> string \<Rightarrow> bool" where
  "dependency_exists e g d =
     status_ok (make_swift_request e ''HEAD'' (gw_account g) (gw_mc_dependency g) d)"

definition declared_dependencies :: "env \<Rightarrow> gateway \<Rightarrow> string \<Rightarrow> string list" where
  "declared_dependencies e g n =
     (case store_headers e g n MC_DEP_HEADER of
        None \<Rightarrow> []
      | Some deps \<Rightarrow> split_str CHR '','' deps)"

definition handler_resolves :: "env \<Rightarrow> gateway \<Rightarrow> string \<Rightarrow> bool" where
  "handler_resolves e g n =
     (handler_exists e g n \<and> list_all (dependency_exists e g) (declared_dependencies e g n))"

definition handler_described :: "env \<Rightarrow> gateway \<Rightarrow> string \<Rightarrow> bool" where
  "handler_described e g n =
     (store_headers e g n MC_MAIN_HEADER \<noteq> None \<and> store_headers e g n MC_DEP_HEADER \<noteq> None)"

text \<open>
  Two states of the gateway object that differ at most in \<open>mc_metadata\<close>, and a
  \<open>mc_metadata\<close> that holds, for the names of a set, the headers of the store.
\<close>

definition same_gateway :: "gateway \<Rightarrow> gateway \<Rightarrow> bool" where
  "same_gateway g g' =
     (gw_req g' = gw_req g \<and> gw_orig_resp g' = gw_orig_resp g \<and> gw_conf g' = gw_conf g
      \<and> gw_account g' = gw_account g \<and> gw_scope g' = gw_scope g
      \<and> gw_file_path g' = gw_file_path g \<and> gw_current_server g' = gw_current_server g
      \<and> gw_mc_timeout g' = gw_mc_timeout g \<and> gw_mc_container g' = gw_mc_container g
      \<and> gw_mc_dependency g' = gw_mc_dependency g \<and> gw_mc_list g' = gw_mc_list g)"


text \<open>
  The directory of the object's data file, and the gateway object after the assignment to
  \<open>self.file_path\<close>.
\<close>

definition object_dir :: "gateway \<Rightarrow> string" where
  "object_dir g = index0 (rsplit CHR ''/'' 1 (or_data_file (gw_orig_resp g)))"

definition with_file_path :: "gateway \<Rightarrow> gateway" where
  "with_file_path g = g\<lparr>gw_file_path := Some (object_dir g)\<rparr>"

text \<open>Handler objects whose open descriptors are all smaller than a given one.\<close>

definition fds_below :: "fd \<Rightarrow> MicroController list \<Rightarrow> bool" where
  "fds_below r mcs =
     list_all (\<lambda>mc. (case mc_metadata_file mc of None \<Rightarrow> True | Some a \<Rightarrow> a < r)
                  \<and> (case mc_logger_file mc of None \<Rightarrow> True | Some a \<Rightarrow> a < r)) mcs"

section \<open>Concrete inputs\<close>

text \<open>
  A store with a handler \<open>a.mc\<close>, whose metadata names its main class and one dependency
  \<open>lib.jar\<close>, with that dependency, and with an object \<open>x.mc\<close> that was stored among the
  handlers without any handler metadata; every other object is absent (status 404).
\<close>

definition store0 :: "string \<Rightarrow> string \<Rightarrow> string \<Rightarrow> string \<Rightarrow> swift_response" where
  "store0 method account container obj =
     (if container = ''mc'' \<and> obj = ''a.mc'' then
        \<lparr>sr_status_int = 200,
         sr_headers = [MC_MAIN_HEADER \<mapsto> ''m.A'', MC_DEP_HEADER \<mapsto> ''lib.jar''],
         sr_body = ''code''\<rparr>
      else if container = ''dep'' \<and> obj = ''lib.jar'' then
        \<lparr>sr_status_int = 200, sr_headers = Map.empty, sr_body = ''jar''\<rparr>
      else if container = ''mc'' \<and> obj = ''x.mc'' then
        \<lparr>sr_status_int = 200, sr_headers = Map.empty, sr_body = ''code''\<rparr>
      else \<lparr>sr_status_int = 404, sr_headers = Map.empty, sr_body = []\<rparr>)"

definition env0 :: env where
  "env0 =
     \<lparr>popen_read = (\<lambda>_. ''4242''),
      internal_client_rc = 0,
      launch_rc = 0,
      make_swift_request = store0,
      read_metadata = (\<lambda>_. Some [(''onget'', ''a.mc''), (''onput'', ''None''),
                                  (''ondelete'', ''None''), (''ontimer'', ''None'')]),
      SBus_send_rc = 0,
      select_ready = True,
      os_read = ''{}'',
      json_loads = (\<lambda>_. None)\<rparr>"

definition conf0 :: conf where
  "conf0 =
     \<lparr>conf_execution_server = ''object'',
      conf_mc_timeout = 20,
      conf_mc_container = ''mc'',
      conf_mc_dependency = ''dep'',
      conf_docker_repo = ''repo'',
      conf_pipes_dir = ''/pipes'',
      conf_mc_dir = ''/mcs'',
      conf_log_dir = ''/logs'',
      conf_mc_pipe = ''mc_pipe''\<rparr>"

definition gw0 :: gateway where
  "gw0 =
     VertigoGatewayDocker_init
       \<lparr>req_headers = [''Cookie'' \<mapsto> ''c'', ''X-Auth-Token'' \<mapsto> ''t''], req_body = []\<rparr>
       \<lparr>or_request_method = ''GET'', or_fp = 3, or_data_file = ''/srv/o/1.data'',
        or_headers = [''Etag'' \<mapsto> ''e'']\<rparr>
       conf0 ''AUTH_bd34c4073b654'' ''c'' ''o''"

definition world0 :: world where
  "world0 = \<lparr>trace = [], next_fd = 5, open_fds = {0, 1, 2, 3, 4}, fs_dirs = {}, containers = []\<rparr>"

text \<open>The protocol object \<open>execute_microcontrollers\<close> builds for the chain \<open>a.mc\<close>.\<close>

definition protocol0 :: protocol where
  "protocol0 =
     MicroControllerInvocationProtocol_init ''/srv/o'' ''/pipes/bd34c4073b654/mc_pipe''
       ''/logs/bd34c4073b654/''
       [''Cookie'' \<mapsto> ''c'', ''X-Auth-Token'' \<mapsto> ''t'', ''X-Current-Server'' \<mapsto> ''object'']
       [''Etag'' \<mapsto> ''e'']
       [''a.mc'']
       [''a.mc'' \<mapsto> [MC_MAIN_HEADER \<mapsto> ''m.A'', MC_DEP_HEADER \<mapsto> ''lib.jar'']]
       20"

section \<open>Traces and loops\<close>

lemma trace_emit [simp]: "trace (emit ev w) = trace w @ [ev]"
  and next_fd_emit [simp]: "next_fd (emit ev w) = next_fd w"
  and open_fds_emit [simp]: "open_fds (emit ev w) = open_fds w"
  and fs_dirs_emit [simp]: "fs_dirs (emit ev w) = fs_dirs w"
  and containers_emit [simp]: "containers (emit ev w) = containers w"
  by (simp_all add: emit_def)

lemma sends_append [simp]: "sends (xs @ ys) = sends xs @ sends ys"
  by (induction xs rule: sends.induct) simp_all

lemma selects_append [simp]: "selects (xs @ ys) = selects xs + selects ys"
  by (induction xs rule: selects.induct) simp_all

lemma trace_os_makedirs [simp]: "trace (os_makedirs path w) = trace w @ [Makedirs path]"
  by (simp add: os_makedirs_def)

lemma trace_os_close [simp]: "trace (os_close f w) = trace w @ [Close f]"
  by (simp add: os_close_def)

lemma trace_py_open [simp]:
  "trace (snd (py_open path mode w)) = trace w @ [FileOpen path mode (next_fd w)]"
  by (simp add: py_open_def Let_def)

lemma trace_os_pipe [simp]:
  "trace (snd (os_pipe w)) = trace w @ [Pipe (next_fd w) (next_fd w + 1)]"
  by (simp add: os_pipe_def Let_def)

lemma MicroController_init_fst:
  "fst (MicroController_init fp lp n m d w) = fst (MicroController_init fp lp n m d w')"
  by (simp add: MicroController_init_def Let_def)

lemma MicroController_init_trace:
  "sends (trace (snd (MicroController_init fp lp n m d w))) = sends (trace w)"
  "selects (trace (snd (MicroController_init fp lp n m d w))) = selects (trace w)"
  by (simp_all add: MicroController_init_def Let_def)

lemma create_loop_result:
  "descriptors_known (p_mc_md p) names \<Longrightarrow>
   fst (communicate_create_loop names p w) = Inr ()
   \<and> fst (snd (communicate_create_loop names p w)) =
       p\<lparr>p_micro_controllers := p_micro_controllers p @ map (new_mc p) names\<rparr>"
proof (induction names arbitrary: p w)
  case Nil
  then show ?case by simp
next
  case (Cons n names)
  from Cons.prems obtain h m d where
    h: "p_mc_md p n = Some h" "h MC_MAIN_HEADER = Some m" "h MC_DEP_HEADER = Some d"
    and rest: "descriptors_known (p_mc_md p) names"
    by (auto simp: descriptors_known_def split: option.splits)
  let ?mc = "fst (MicroController_init (p_file_path p) (p_mc_logger_path p) n m d w)"
  let ?w1 = "snd (MicroController_init (p_file_path p) (p_mc_logger_path p) n m d w)"
  let ?p1 = "p\<lparr>p_micro_controllers := p_micro_controllers p @ [?mc]\<rparr>"
  have step: "communicate_create_loop (n # names) p w = communicate_create_loop names ?p1 ?w1"
    using h by (simp add: split_beta)
  have mc: "?mc = new_mc p n"
    using h unfolding new_mc_def main_of_def deps_of_def
    by (simp add: MicroController_init_fst [of _ _ _ _ _ w])
  have nm: "map (new_mc ?p1) names = map (new_mc p) names"
    by (simp add: new_mc_def)
  from rest have "descriptors_known (p_mc_md ?p1) names" by simp
  from Cons.IH [OF this, of ?w1] show ?case
    unfolding step nm by (simp add: mc)
qed

lemma create_loop_trace:
  "sends (trace (snd (snd (communicate_create_loop names p w)))) = sends (trace w)
   \<and> selects (trace (snd (snd (communicate_create_loop names p w)))) = selects (trace w)"
proof (induction names arbitrary: p w)
  case Nil
  then show ?case by simp
next
  case (Cons n names)
  show ?case
    by (simp add: split_beta Cons.IH MicroController_init_trace split: option.splits)
qed

lemma open_loop_trace:
  "sends (trace (snd (communicate_open_loop mcs w))) = sends (trace w)
   \<and> selects (trace (snd (communicate_open_loop mcs w))) = selects (trace w)"
proof (induction mcs arbitrary: w)
  case Nil
  then show ?case by simp
next
  case (Cons mc mcs)
  show ?case
    by (simp add: split_beta Cons.IH MicroController_open_def)
qed

lemma open_loop_opened:
  "list_all opened (fst (communicate_open_loop mcs w))"
  by (induction mcs arbitrary: w)
     (simp_all add: split_beta MicroController_open_def opened_def)

lemma add_logger_stream_loop_opened:
  "list_all opened mcs \<Longrightarrow>
   add_logger_stream_loop mcs p =
     (Inr (),
      p\<lparr>p_fds := p_fds p @ map mc_logger_file mcs,
        p_fdmd := p_fdmd p @
          map (\<lambda>mc. [''type'' \<mapsto> MInt SBUS_FD_LOGGER, ''handler'' \<mapsto> MStr (mc_micro_controller mc)])
              mcs\<rparr>)"
  by (induction mcs arbitrary: p)
     (auto simp: opened_def get_logfd_def get_name_def)

lemma add_metadata_stream_loop_opened:
  "list_all opened mcs \<Longrightarrow>
   add_metadata_stream_loop mcs p =
     (Inr (),
      p\<lparr>p_fds := p_fds p @ map mc_metadata_file mcs,
        p_fdmd := p_fdmd p @
          map (\<lambda>mc. [''type'' \<mapsto> MInt SBUS_FD_OUTPUT_OBJECT_METADATA,
                     ''handler'' \<mapsto> MStr (mc_micro_controller mc),
                     ''main'' \<mapsto> MStr (mc_main_class mc),
                     ''dependencies'' \<mapsto> MStr (mc_dependencies mc)])
              mcs\<rparr>)"
  by (induction mcs arbitrary: p)
     (auto simp: opened_def get_mdfd_def get_name_def get_main_def get_dependencies_def)

lemma close_loop_opened:
  "list_all opened mcs \<Longrightarrow> fst (communicate_close_loop mcs w) = Inr ()"
  by (induction mcs arbitrary: w)
     (auto simp: opened_def MicroController_close_def Let_def)

lemma close_loop_trace:
  "sends (trace (snd (communicate_close_loop mcs w))) = sends (trace w)
   \<and> selects (trace (snd (communicate_close_loop mcs w))) = selects (trace w)"
proof (induction mcs arbitrary: w)
  case Nil
  then show ?case by simp
next
  case (Cons mc mcs)
  show ?case
    by (simp add: split_beta Cons.IH MicroController_close_def Let_def split: option.splits sum.splits)
qed

lemma next_fd_os_pipe [simp]: "next_fd (snd (os_pipe w)) = next_fd w + 2"
  by (simp add: os_pipe_def Let_def)

lemma fst_os_pipe [simp]: "fst (os_pipe w) = (next_fd w, next_fd w + 1)"
  by (simp add: os_pipe_def Let_def)

lemma add_file_req_md_eq:
  "add_file_req_md p =
     p\<lparr>p_fds := p_fds p @ [p_null_write_fd p],
       p_req_md := (p_req_md p)(''X-Service-Catalog'' := None, ''Cookie'' := None),
       p_fdmd := p_fdmd p @
         [[''type'' \<mapsto> MInt SBUS_FD_INPUT_OBJECT,
           ''json_md'' \<mapsto> MJson [(''req_md'', (p_req_md p)(''X-Service-Catalog'' := None, ''Cookie'' := None)),
                                    (''file_md'', p_file_md p)]]]\<rparr>"
proof -
  have a: "(p_req_md p)(''X-Service-Catalog'' := None) = p_req_md p"
    if "''X-Service-Catalog'' \<notin> dom (p_req_md p)"
    using that by (auto simp: fun_upd_idem_iff domIff)
  have b: "m(''Cookie'' := None) = m" if "''Cookie'' \<notin> dom m" for m :: hdict
    using that by (auto simp: fun_upd_idem_iff domIff)
  show ?thesis
    unfolding add_file_req_md_def Let_def
    by (cases "''X-Service-Catalog'' \<in> dom (p_req_md p)";
        cases "''Cookie'' \<in> dom (p_req_md p)")
       (auto simp: a b domIff fun_upd_idem_iff)
qed

lemma prepare_opened:
  assumes "list_all opened (p_micro_controllers p)"
  shows "fst (prepare_invocation_descriptors p w) = Inr ()"
    and "snd (snd (prepare_invocation_descriptors p w)) = snd (os_pipe (snd (os_pipe w)))"
    and "p_fdmd (fst (snd (prepare_invocation_descriptors p w))) =
           p_fdmd p @
           [[''type'' \<mapsto> MInt SBUS_FD_INPUT_OBJECT,
             ''json_md'' \<mapsto> MJson [(''req_md'', (p_req_md p)(''X-Service-Catalog'' := None, ''Cookie'' := None)),
                                      (''file_md'', p_file_md p)]],
            [''type'' \<mapsto> MInt SBUS_FD_OUTPUT_OBJECT]] @
           map (\<lambda>mc. [''type'' \<mapsto> MInt SBUS_FD_LOGGER, ''handler'' \<mapsto> MStr (mc_micro_controller mc)])
               (p_micro_controllers p) @
           map (\<lambda>mc. [''type'' \<mapsto> MInt SBUS_FD_OUTPUT_OBJECT_METADATA,
                      ''handler'' \<mapsto> MStr (mc_micro_controller mc),
                      ''main'' \<mapsto> MStr (mc_main_class mc),
                      ''dependencies'' \<mapsto> MStr (mc_dependencies mc)])
               (p_micro_controllers p)"
    and "p_fds (fst (snd (prepare_invocation_descriptors p w))) =
           p_fds p @ [Some (next_fd w + 3), Some (next_fd w + 1)] @
           map mc_logger_file (p_micro_controllers p) @
           map mc_metadata_file (p_micro_controllers p)"
    and "p_micro_controllers (fst (snd (prepare_invocation_descriptors p w))) = p_micro_controllers p"
    and "p_mc_pipe_path (fst (snd (prepare_invocation_descriptors p w))) = p_mc_pipe_path p"
    and "p_task_id (fst (snd (prepare_invocation_descriptors p w))) = p_task_id p"
    and "p_timeout (fst (snd (prepare_invocation_descriptors p w))) = p_timeout p"
    and "p_response_read_fd (fst (snd (prepare_invocation_descriptors p w))) = Some (next_fd w)"
    and "p_response_write_fd (fst (snd (prepare_invocation_descriptors p w))) = Some (next_fd w + 1)"
  using assms
  by (simp_all add: prepare_invocation_descriptors_def Let_def split_beta add_file_req_md_eq
        add_output_stream_def add_logger_stream_def add_metadata_stream_def
        add_logger_stream_loop_opened add_metadata_stream_loop_opened)

lemma close_remote_trace:
  "sends (trace (close_remote_side_descriptors p w)) = sends (trace w)"
  "selects (trace (close_remote_side_descriptors p w)) = selects (trace w)"
  by (simp_all add: close_remote_side_descriptors_def split: option.splits)

lemma invoke_snd:
  "snd (invoke e p w) =
     emit (SBusSend (p_mc_pipe_path p)
             \<lparr>dtg_files = p_fds p, dtg_metadata = p_fdmd p, dtg_command = SBUS_CMD_EXECUTE\<rparr>) w"
  by (simp add: invoke_def Let_def)

lemma invoke_fst:
  "fst (invoke e p w) =
     (if SBus_send_rc e < 0 then Inl (Exception ''Failed to send execute command'') else Inr ())"
  by (simp add: invoke_def Let_def)

lemma try_finally_snd:
  "snd (communicate_try_finally e p w) =
     snd (communicate_close_loop (p_micro_controllers p)
            (close_remote_side_descriptors p (snd (invoke e p w))))"
proof -
  obtain r w3 where cl:
    "communicate_close_loop (p_micro_controllers p)
       (close_remote_side_descriptors p (snd (invoke e p w))) = (r, w3)"
    by (cases "communicate_close_loop (p_micro_controllers p)
                 (close_remote_side_descriptors p (snd (invoke e p w)))")
  show ?thesis
    unfolding communicate_try_finally_def Let_def split_beta cl
    by (simp split: sum.splits)
qed


lemma try_finally_selects:
  "selects (trace (snd (communicate_try_finally e p w))) = selects (trace w)"
  by (simp add: try_finally_snd close_loop_trace close_remote_trace invoke_snd)

lemma try_finally_result:
  assumes "list_all opened (p_micro_controllers p)"
  shows "fst (communicate_try_finally e p w) =
     (if SBus_send_rc e < 0 then Inl (Exception ''Failed to send execute command'') else Inr ())"
proof -
  obtain w3 where cl:
    "communicate_close_loop (p_micro_controllers p)
       (close_remote_side_descriptors p (snd (invoke e p w))) = (Inr (), w3)"
    using close_loop_opened [OF assms] by (metis prod.collapse)
  show ?thesis
    unfolding communicate_try_finally_def Let_def split_beta cl
    by (simp add: invoke_fst)
qed


lemma open_loop_map:
  "map (\<lambda>mc. g (mc_micro_controller mc) (mc_main_class mc) (mc_dependencies mc))
       (fst (communicate_open_loop mcs w)) =
   map (\<lambda>mc. g (mc_micro_controller mc) (mc_main_class mc) (mc_dependencies mc)) mcs"
  by (induction mcs arbitrary: w)
     (simp_all add: split_beta MicroController_open_def)

lemma new_mc_attrs [simp]:
  "mc_micro_controller (new_mc p n) = n"
  "mc_main_class (new_mc p n) = main_of (p_mc_md p) n"
  "mc_dependencies (new_mc p n) = deps_of (p_mc_md p) n"
  by (simp_all add: new_mc_def MicroController_init_def Let_def)

text \<open>The statements of \<open>communicate\<close> up to the prepared descriptors, and what follows them.\<close>

lemma communicate_steps:
  assumes known: "descriptors_known (p_mc_md p) (p_mc_list p)"
  obtains p3 w3 where
    "communicate e p w =
       (case communicate_try_finally e p3 w3 of
          (Inl err, w4) \<Rightarrow> (Inl err, p3, w4)
        | (Inr _, w4) \<Rightarrow>
            (case read_response e p3 w4 of
               (Inl err, w5) \<Rightarrow> (Inl err, p3, w5)
             | (Inr out_data, w5) \<Rightarrow>
                 (case p_response_read_fd p3 of
                    None \<Rightarrow> (Inl TypeError, p3, w5)
                  | Some f \<Rightarrow> (Inr out_data, p3, os_close f w5))))"
    and "list_all opened (p_micro_controllers p3)"
    and "sends (trace w3) = sends (trace w)"
    and "selects (trace w3) = selects (trace w)"
    and "p_mc_pipe_path p3 = p_mc_pipe_path p"
    and "p_task_id p3 = p_task_id p"
    and "p_timeout p3 = p_timeout p"
    and "p_response_read_fd p3 \<noteq> None"
    and "length (p_fds p3) = length (p_fdmd p3) + length (p_fds p) - length (p_fdmd p)"
    and "p_fdmd p3 =
           p_fdmd p @
           [[''type'' \<mapsto> MInt SBUS_FD_INPUT_OBJECT,
             ''json_md'' \<mapsto> MJson [(''req_md'', (p_req_md p)(''X-Service-Catalog'' := None, ''Cookie'' := None)),
                                      (''file_md'', p_file_md p)]],
            [''type'' \<mapsto> MInt SBUS_FD_OUTPUT_OBJECT]] @
           map (\<lambda>mc. [''type'' \<mapsto> MInt SBUS_FD_LOGGER, ''handler'' \<mapsto> MStr (mc_micro_controller mc)])
               (p_micro_controllers p @ map (new_mc p) (p_mc_list p)) @
           map (\<lambda>mc. [''type'' \<mapsto> MInt SBUS_FD_OUTPUT_OBJECT_METADATA,
                      ''handler'' \<mapsto> MStr (mc_micro_controller mc),
                      ''main'' \<mapsto> MStr (mc_main_class mc),
                      ''dependencies'' \<mapsto> MStr (mc_dependencies mc)])
               (p_micro_controllers p @ map (new_mc p) (p_mc_list p))"
proof -
  let ?p1 = "p\<lparr>p_micro_controllers := p_micro_controllers p @ map (new_mc p) (p_mc_list p)\<rparr>"
  obtain w1 where c: "communicate_create_loop (p_mc_list p) p w = (Inr (), ?p1, w1)"
    using create_loop_result [OF known, of w] by (metis prod.collapse)
  have w1: "sends (trace w1) = sends (trace w)" "selects (trace w1) = selects (trace w)"
    using create_loop_trace [of "p_mc_list p" p w] by (simp_all add: c)
  let ?m0 = "p_micro_controllers p @ map (new_mc p) (p_mc_list p)"
  obtain mcs w2 where o: "communicate_open_loop ?m0 w1 = (mcs, w2)"
    by (cases "communicate_open_loop ?m0 w1")
  have w2: "sends (trace w2) = sends (trace w)" "selects (trace w2) = selects (trace w)"
    using open_loop_trace [of ?m0 w1] by (simp_all add: o w1)
  let ?p2 = "p\<lparr>p_micro_controllers := mcs\<rparr>"
  have op: "list_all opened (p_micro_controllers ?p2)"
    using open_loop_opened [of ?m0 w1] by (simp add: o)
  note pr = prepare_opened [OF op, of w2]
  obtain p3 w3 where preq: "prepare_invocation_descriptors ?p2 w2 = (Inr (), p3, w3)"
    using pr(1) by (metis prod.collapse)
  note pr3 = pr [unfolded preq, simplified]
  have 1: "communicate e p w =
       (case communicate_try_finally e p3 w3 of
          (Inl err, w4) \<Rightarrow> (Inl err, p3, w4)
        | (Inr _, w4) \<Rightarrow>
            (case read_response e p3 w4 of
               (Inl err, w5) \<Rightarrow> (Inl err, p3, w5)
             | (Inr out_data, w5) \<Rightarrow>
                 (case p_response_read_fd p3 of
                    None \<Rightarrow> (Inl TypeError, p3, w5)
                  | Some f \<Rightarrow> (Inr out_data, p3, os_close f w5))))"
    unfolding communicate_def c by (simp add: o preq)
  have 2: "list_all opened (p_micro_controllers p3)"
    using op by (simp add: pr3)
  have 3: "sends (trace w3) = sends (trace w)"
    by (simp add: pr3 w2)
  have 4: "selects (trace w3) = selects (trace w)"
    by (simp add: pr3 w2)
  have 9: "length (p_fds p3) = length (p_fdmd p3) + length (p_fds p) - length (p_fdmd p)"
    by (simp add: pr3)
  have 10: "p_fdmd p3 =
           p_fdmd p @
           [[''type'' \<mapsto> MInt SBUS_FD_INPUT_OBJECT,
             ''json_md'' \<mapsto> MJson [(''req_md'', (p_req_md p)(''X-Service-Catalog'' := None, ''Cookie'' := None)),
                                      (''file_md'', p_file_md p)]],
            [''type'' \<mapsto> MInt SBUS_FD_OUTPUT_OBJECT]] @
           map (\<lambda>mc. [''type'' \<mapsto> MInt SBUS_FD_LOGGER, ''handler'' \<mapsto> MStr (mc_micro_controller mc)])
               (p_micro_controllers p @ map (new_mc p) (p_mc_list p)) @
           map (\<lambda>mc. [''type'' \<mapsto> MInt SBUS_FD_OUTPUT_OBJECT_METADATA,
                      ''handler'' \<mapsto> MStr (mc_micro_controller mc),
                      ''main'' \<mapsto> MStr (mc_main_class mc),
                      ''dependencies'' \<mapsto> MStr (mc_dependencies mc)])
               (p_micro_controllers p @ map (new_mc p) (p_mc_list p))"
    using open_loop_map [of "\<lambda>n m d. [''type'' \<mapsto> MInt SBUS_FD_LOGGER, ''handler'' \<mapsto> MStr n]"
            "p_micro_controllers p @ map (new_mc p) (p_mc_list p)" w1]
          open_loop_map [of "\<lambda>n m d. [''type'' \<mapsto> MInt SBUS_FD_OUTPUT_OBJECT_METADATA,
                      ''handler'' \<mapsto> MStr n, ''main'' \<mapsto> MStr m, ''dependencies'' \<mapsto> MStr d]"
            "p_micro_controllers p @ map (new_mc p) (p_mc_list p)" w1]
    by (simp add: pr3 o)
  show thesis
    by (rule that [OF 1 2 3 4 _ _ _ _ 9 10]) (simp_all add: pr3)
qed


lemma communicate_send_failure:
  assumes known: "descriptors_known (p_mc_md p) (p_mc_list p)"
    and rc: "SBus_send_rc e < 0"
  shows "fst (communicate e p w) = Inl (Exception ''Failed to send execute command'')"
    and "selects (trace (snd (snd (communicate e p w)))) = selects (trace w)"
proof -
  from known obtain p3 w3 where
    c: "communicate e p w =
       (case communicate_try_finally e p3 w3 of
          (Inl err, w4) \<Rightarrow> (Inl err, p3, w4)
        | (Inr _, w4) \<Rightarrow>
            (case read_response e p3 w4 of
               (Inl err, w5) \<Rightarrow> (Inl err, p3, w5)
             | (Inr out_data, w5) \<Rightarrow>
                 (case p_response_read_fd p3 of
                    None \<Rightarrow> (Inl TypeError, p3, w5)
                  | Some f \<Rightarrow> (Inr out_data, p3, os_close f w5))))"
    and op: "list_all opened (p_micro_controllers p3)"
    and s: "selects (trace w3) = selects (trace w)"
    by (rule communicate_steps)
  obtain w4 where tf:
    "communicate_try_finally e p3 w3 = (Inl (Exception ''Failed to send execute command''), w4)"
    using try_finally_result [OF op, of e w3] rc by (metis prod.collapse)
  have w4: "selects (trace w4) = selects (trace w)"
    using try_finally_selects [of e p3 w3] by (simp add: tf s)
  show "fst (communicate e p w) = Inl (Exception ''Failed to send execute command'')"
    unfolding c tf by simp
  show "selects (trace (snd (snd (communicate e p w)))) = selects (trace w)"
    unfolding c tf by (simp add: w4)
qed

lemma communicate_timeout:
  assumes known: "descriptors_known (p_mc_md p) (p_mc_list p)"
    and rc: "0 \<le> SBus_send_rc e"
    and nr: "\<not> select_ready e"
    and task: "p_task_id p = None"
  shows "fst (communicate e p w) =
           Inl (Timeout ''Timeout while waiting for Micro-controller output'')"
proof -
  from known obtain p3 w3 where
    c: "communicate e p w =
       (case communicate_try_finally e p3 w3 of
          (Inl err, w4) \<Rightarrow> (Inl err, p3, w4)
        | (Inr _, w4) \<Rightarrow>
            (case read_response e p3 w4 of
               (Inl err, w5) \<Rightarrow> (Inl err, p3, w5)
             | (Inr out_data, w5) \<Rightarrow>
                 (case p_response_read_fd p3 of
                    None \<Rightarrow> (Inl TypeError, p3, w5)
                  | Some f \<Rightarrow> (Inr out_data, p3, os_close f w5))))"
    and op: "list_all opened (p_micro_controllers p3)"
    and t3: "p_task_id p3 = p_task_id p"
    and rd: "p_response_read_fd p3 \<noteq> None"
    by (rule communicate_steps)
  obtain w4 where tf: "communicate_try_finally e p3 w3 = (Inr (), w4)"
    using try_finally_result [OF op, of e w3] rc by (metis prod.collapse not_less)
  from rd obtain f where f: "p_response_read_fd p3 = Some f" by auto
  have rr: "fst (read_response e p3 w4) =
              Inl (Timeout ''Timeout while waiting for Micro-controller output'')"
    using nr task
    by (simp add: read_response_def f wait_for_read_with_timeout_def Let_def t3)
  show ?thesis
    unfolding c tf using rr
    by (cases "read_response e p3 w4") (simp split: sum.splits)
qed




lemma read_response_selects:
  "p_response_read_fd p \<noteq> None \<Longrightarrow>
   selects (trace (snd (read_response e p w))) = selects (trace w) + 1"
  by (auto simp: read_response_def wait_for_read_with_timeout_def cancel_def Let_def
           split: option.splits sum.splits prod.splits)

lemma read_response_empty_object:
  "p_response_read_fd p \<noteq> None \<Longrightarrow> select_ready e \<Longrightarrow> os_read e = ''{}'' \<Longrightarrow>
   fst (read_response e p w) = Inr None"
  by (auto simp: read_response_def wait_for_read_with_timeout_def Let_def)

lemma communicate_awaits:
  assumes known: "descriptors_known (p_mc_md p) (p_mc_list p)"
    and rc: "0 \<le> SBus_send_rc e"
  shows "selects (trace (snd (snd (communicate e p w)))) = selects (trace w) + 1"
    and "select_ready e \<Longrightarrow> os_read e = ''{}'' \<Longrightarrow> fst (communicate e p w) = Inr None"
proof -
  from known obtain p3 w3 where
    c: "communicate e p w =
       (case communicate_try_finally e p3 w3 of
          (Inl err, w4) \<Rightarrow> (Inl err, p3, w4)
        | (Inr _, w4) \<Rightarrow>
            (case read_response e p3 w4 of
               (Inl err, w5) \<Rightarrow> (Inl err, p3, w5)
             | (Inr out_data, w5) \<Rightarrow>
                 (case p_response_read_fd p3 of
                    None \<Rightarrow> (Inl TypeError, p3, w5)
                  | Some f \<Rightarrow> (Inr out_data, p3, os_close f w5))))"
    and op: "list_all opened (p_micro_controllers p3)"
    and s: "selects (trace w3) = selects (trace w)"
    and rd: "p_response_read_fd p3 \<noteq> None"
    by (rule communicate_steps)
  obtain w4 where tf: "communicate_try_finally e p3 w3 = (Inr (), w4)"
    using try_finally_result [OF op, of e w3] rc by (metis prod.collapse not_less)
  have w4: "selects (trace w4) = selects (trace w)"
    using try_finally_selects [of e p3 w3] by (simp add: tf s)
  obtain r5 w5 where rr: "read_response e p3 w4 = (r5, w5)"
    by (cases "read_response e p3 w4")
  have w5: "selects (trace w5) = selects (trace w) + 1"
    using read_response_selects [OF rd, of e w4] by (simp add: rr w4)
  from rd obtain f where f: "p_response_read_fd p3 = Some f" by auto
  show "selects (trace (snd (snd (communicate e p w)))) = selects (trace w) + 1"
    unfolding c tf by (simp add: rr w5 f split: sum.splits)
  show "fst (communicate e p w) = Inr None" if "select_ready e" "os_read e = ''{}''"
    using read_response_empty_object [OF rd that, of w4]
    unfolding c tf by (simp add: rr f)
qed


lemma closes_append [simp]: "closes f (xs @ ys) = closes f xs + closes f ys"
  by (induction f xs rule: closes.induct) simp_all

lemma MicroController_init_world:
  "closes f (trace (snd (MicroController_init fp lp n m d w))) = closes f (trace w)"
  "next_fd (snd (MicroController_init fp lp n m d w)) = next_fd w"
  "open_fds (snd (MicroController_init fp lp n m d w)) = open_fds w"
  by (simp_all add: MicroController_init_def Let_def os_makedirs_def)

lemma create_loop_world:
  "closes f (trace (snd (snd (communicate_create_loop names p w)))) = closes f (trace w)
   \<and> next_fd (snd (snd (communicate_create_loop names p w))) = next_fd w"
proof (induction names arbitrary: p w)
  case Nil
  then show ?case by simp
next
  case (Cons n names)
  show ?case
    by (simp add: split_beta Cons.IH MicroController_init_world split: option.splits)
qed

lemma open_loop_world:
  "closes f (trace (snd (communicate_open_loop mcs w))) = closes f (trace w)
   \<and> next_fd (snd (communicate_open_loop mcs w)) = next_fd w + 2 * length mcs
   \<and> fds_below (next_fd w + 2 * length mcs) (fst (communicate_open_loop mcs w))"
proof (induction mcs arbitrary: w)
  case Nil
  then show ?case by (simp add: fds_below_def)
next
  case (Cons mc mcs)
  let ?w1 = "snd (MicroController_open mc w)"
  have n1: "next_fd ?w1 = next_fd w + 2"
    by (simp add: MicroController_open_def py_open_def Let_def split_beta)
  have c1: "closes f (trace ?w1) = closes f (trace w)"
    by (simp add: MicroController_open_def py_open_def Let_def split_beta)
  have m1: "mc_metadata_file (fst (MicroController_open mc w)) = Some (next_fd w)"
    "mc_logger_file (fst (MicroController_open mc w)) = Some (next_fd w + 1)"
    by (simp_all add: MicroController_open_def py_open_def Let_def split_beta)
  from Cons.IH [of ?w1] show ?case
    by (simp add: split_beta n1 c1 m1 fds_below_def)
qed

lemma close_loop_world:
  "fds_below r mcs \<Longrightarrow>
   closes r (trace (snd (communicate_close_loop mcs w))) = closes r (trace w)
   \<and> closes (r + 1) (trace (snd (communicate_close_loop mcs w))) = closes (r + 1) (trace w)
   \<and> (r \<in> open_fds w \<longrightarrow> r \<in> open_fds (snd (communicate_close_loop mcs w)))"
proof (induction mcs arbitrary: w)
  case Nil
  then show ?case by simp
next
  case (Cons mc mcs)
  from Cons.prems have rest: "fds_below r mcs" by (simp add: fds_below_def)
  from Cons.prems Cons.IH [OF rest] show ?case
    by (auto simp: fds_below_def MicroController_close_def Let_def os_close_def emit_def
             split: option.splits)
qed

lemma read_response_world:
  "closes f (trace (snd (read_response e p w))) = closes f (trace w)"
  "open_fds (snd (read_response e p w)) = open_fds w"
  by (simp_all add: read_response_def wait_for_read_with_timeout_def cancel_def Let_def
           split: option.splits sum.splits prod.splits)

lemma prepare_world:
  "closes f (trace (snd (os_pipe (snd (os_pipe w))))) = closes f (trace w)"
  "next_fd w \<in> open_fds (snd (os_pipe (snd (os_pipe w))))"
  by (simp_all add: os_pipe_def Let_def)

lemma try_finally_world:
  assumes wr: "p_response_write_fd p = Some (r + 1)"
    and below: "fds_below r (p_micro_controllers p)"
  shows "closes r (trace (snd (communicate_try_finally e p w))) = closes r (trace w)"
    and "closes (r + 1) (trace (snd (communicate_try_finally e p w))) = closes (r + 1) (trace w) + 1"
    and "r \<in> open_fds w \<Longrightarrow> r \<in> open_fds (snd (communicate_try_finally e p w))"
proof -
  let ?w2 = "close_remote_side_descriptors p (snd (invoke e p w))"
  have a: "closes r (trace ?w2) = closes r (trace w)"
    "closes (r + 1) (trace ?w2) = closes (r + 1) (trace w) + 1"
    "r \<in> open_fds w \<Longrightarrow> r \<in> open_fds ?w2"
    by (simp_all add: close_remote_side_descriptors_def wr invoke_snd os_close_def emit_def)
  note cl = close_loop_world [OF below, of ?w2]
  show "closes r (trace (snd (communicate_try_finally e p w))) = closes r (trace w)"
    using cl a by (simp add: try_finally_snd)
  show "closes (r + 1) (trace (snd (communicate_try_finally e p w))) = closes (r + 1) (trace w) + 1"
    using cl a by (simp add: try_finally_snd)
  show "r \<in> open_fds (snd (communicate_try_finally e p w))" if "r \<in> open_fds w"
    using cl a that by (simp add: try_finally_snd)
qed

text \<open>
  The descriptors of the response pipe in an invocation: the read end is closed when, and
  only when, the invocation returns a result.
\<close>

lemma communicate_read_end:
  assumes known: "descriptors_known (p_mc_md p) (p_mc_list p)"
  shows "p_response_read_fd (fst (snd (communicate e p w))) =
           Some (next_fd w + 2 * (length (p_micro_controllers p) + length (p_mc_list p)))"
    and "closes (next_fd w + 2 * (length (p_micro_controllers p) + length (p_mc_list p)))
           (trace (snd (snd (communicate e p w)))) =
         closes (next_fd w + 2 * (length (p_micro_controllers p) + length (p_mc_list p))) (trace w)
         + (case fst (communicate e p w) of Inl _ \<Rightarrow> 0 | Inr _ \<Rightarrow> 1)"
    and "closes (next_fd w + 2 * (length (p_micro_controllers p) + length (p_mc_list p)) + 1)
           (trace (snd (snd (communicate e p w)))) =
         closes (next_fd w + 2 * (length (p_micro_controllers p) + length (p_mc_list p)) + 1)
           (trace w) + 1"
    and "fst (communicate e p w) = Inl err \<Longrightarrow>
         next_fd w + 2 * (length (p_micro_controllers p) + length (p_mc_list p))
           \<in> open_fds (snd (snd (communicate e p w)))"
proof -
  define r where "r = next_fd w + 2 * (length (p_micro_controllers p) + length (p_mc_list p))"
  let ?p1 = "p\<lparr>p_micro_controllers := p_micro_controllers p @ map (new_mc p) (p_mc_list p)\<rparr>"
  obtain w1 where c: "communicate_create_loop (p_mc_list p) p w = (Inr (), ?p1, w1)"
    using create_loop_result [OF known, of w] by (metis prod.collapse)
  have w1: "next_fd w1 = next_fd w" "\<And>f. closes f (trace w1) = closes f (trace w)"
    using create_loop_world [of _ "p_mc_list p" p w] by (simp_all add: c)
  let ?m0 = "p_micro_controllers p @ map (new_mc p) (p_mc_list p)"
  obtain mcs w2 where o: "communicate_open_loop ?m0 w1 = (mcs, w2)"
    by (cases "communicate_open_loop ?m0 w1")
  have w2: "next_fd w2 = r" "\<And>f. closes f (trace w2) = closes f (trace w)"
    and below: "fds_below r mcs"
    using open_loop_world [of _ ?m0 w1] by (simp_all add: o w1 r_def)
  let ?p2 = "p\<lparr>p_micro_controllers := mcs\<rparr>"
  have op: "list_all opened (p_micro_controllers ?p2)"
    using open_loop_opened [of ?m0 w1] by (simp add: o)
  note pr = prepare_opened [OF op, of w2]
  obtain p3 w3 where preq: "prepare_invocation_descriptors ?p2 w2 = (Inr (), p3, w3)"
    using pr(1) by (metis prod.collapse)
  note pr3 = pr [unfolded preq, simplified]
  have cm: "communicate e p w =
       (case communicate_try_finally e p3 w3 of
          (Inl err, w4) \<Rightarrow> (Inl err, p3, w4)
        | (Inr _, w4) \<Rightarrow>
            (case read_response e p3 w4 of
               (Inl err, w5) \<Rightarrow> (Inl err, p3, w5)
             | (Inr out_data, w5) \<Rightarrow>
                 (case p_response_read_fd p3 of
                    None \<Rightarrow> (Inl TypeError, p3, w5)
                  | Some f \<Rightarrow> (Inr out_data, p3, os_close f w5))))"
    unfolding communicate_def c by (simp add: o preq)
  have rd: "p_response_read_fd p3 = Some r" and wr: "p_response_write_fd p3 = Some (r + 1)"
    and mc3: "p_micro_controllers p3 = mcs"
    by (simp_all add: pr3 w2)
  have w3: "\<And>f. closes f (trace w3) = closes f (trace w)" "r \<in> open_fds w3"
    using prepare_world [where w = w2] by (simp_all add: pr3 w2)
  have below3: "fds_below r (p_micro_controllers p3)" using below by (simp add: mc3)
  note tf = try_finally_world [OF wr below3, where e = e and w = w3]
  obtain r4 w4 where t: "communicate_try_finally e p3 w3 = (r4, w4)"
    by (cases "communicate_try_finally e p3 w3")
  have w4: "closes r (trace w4) = closes r (trace w)"
    "closes (r + 1) (trace w4) = closes (r + 1) (trace w) + 1" "r \<in> open_fds w4"
    using tf w3 by (simp_all add: t)
  obtain r5 w5 where rr: "read_response e p3 w4 = (r5, w5)"
    by (cases "read_response e p3 w4")
  have w5: "closes r (trace w5) = closes r (trace w)"
    "closes (r + 1) (trace w5) = closes (r + 1) (trace w) + 1" "r \<in> open_fds w5"
    using read_response_world [where e = e and p = p3 and w = w4] w4 by (simp_all add: rr)
  show "p_response_read_fd (fst (snd (communicate e p w))) =
           Some (next_fd w + 2 * (length (p_micro_controllers p) + length (p_mc_list p)))"
    unfolding cm t r_def [symmetric] by (simp add: rr rd split: sum.splits)
  show "closes (next_fd w + 2 * (length (p_micro_controllers p) + length (p_mc_list p)))
           (trace (snd (snd (communicate e p w)))) =
         closes (next_fd w + 2 * (length (p_micro_controllers p) + length (p_mc_list p))) (trace w)
         + (case fst (communicate e p w) of Inl _ \<Rightarrow> 0 | Inr _ \<Rightarrow> 1)"
    unfolding cm t r_def [symmetric] using w4 w5 by (simp add: rr rd split: sum.splits)
  show "closes (next_fd w + 2 * (length (p_micro_controllers p) + length (p_mc_list p)) + 1)
           (trace (snd (snd (communicate e p w)))) =
         closes (next_fd w + 2 * (length (p_micro_controllers p) + length (p_mc_list p)) + 1)
           (trace w) + 1"
    unfolding cm t r_def [symmetric] using w4 w5 by (simp add: rr rd split: sum.splits)
  show "next_fd w + 2 * (length (p_micro_controllers p) + length (p_mc_list p))
           \<in> open_fds (snd (snd (communicate e p w)))" if "fst (communicate e p w) = Inl err"
    using that w4 w5 unfolding cm t r_def [symmetric] by (simp add: rr rd split: sum.splits)
qed

section \<open>The verification loops\<close>

lemma same_gateway_refl [simp]: "same_gateway g g"
  by (simp add: same_gateway_def)






















section \<open>The claims\<close>

text \<open>
  Claim C1. The chain \<open>a.mc\<close>, a send that succeeds and a response that does not arrive
  within the timeout: the invocation raises Timeout, the write end of the response pipe
  (descriptor 8) has been closed once, and the read end (descriptor 7) is still open and
  was never closed. Nor is it closed when the send fails. It is closed once when the
  invocation completes.
\<close>

theorem read_end_left_open_on_timeout:
  "fst (communicate (env0\<lparr>select_ready := False\<rparr>) protocol0 world0) =
     Inl (Timeout ''Timeout while waiting for Micro-controller output'')
   \<and> p_response_read_fd (fst (snd (communicate (env0\<lparr>select_ready := False\<rparr>) protocol0 world0))) =
       Some 7
   \<and> closes 7 (trace (snd (snd (communicate (env0\<lparr>select_ready := False\<rparr>) protocol0 world0)))) = 0
   \<and> 7 \<in> open_fds (snd (snd (communicate (env0\<lparr>select_ready := False\<rparr>) protocol0 world0)))
   \<and> closes 8 (trace (snd (snd (communicate (env0\<lparr>select_ready := False\<rparr>) protocol0 world0)))) = 1
   \<and> closes 7 (trace (snd (snd (communicate (env0\<lparr>SBus_send_rc := - 1\<rparr>) protocol0 world0)))) = 0
   \<and> closes 7 (trace (snd (snd (communicate env0 protocol0 world0)))) = 1"
proof -
  let ?e = "env0\<lparr>select_ready := False\<rparr>"
  have k: "descriptors_known (p_mc_md protocol0) (p_mc_list protocol0)"
    by (simp add: protocol0_def MicroControllerInvocationProtocol_init_def descriptors_known_def
          MC_MAIN_HEADER_def MC_DEP_HEADER_def)
  have rc: "0 \<le> SBus_send_rc ?e" "0 \<le> SBus_send_rc env0" by (simp_all add: env0_def)
  have nr: "\<not> select_ready ?e" by simp
  have t: "p_task_id protocol0 = None"
    by (simp add: protocol0_def MicroControllerInvocationProtocol_init_def)
  have r: "next_fd world0 + 2 * (length (p_micro_controllers protocol0) + length (p_mc_list protocol0)) = 7"
    by (simp add: world0_def protocol0_def MicroControllerInvocationProtocol_init_def)
  have c0: "closes 7 (trace world0) = 0" "closes 8 (trace world0) = 0"
    by (simp_all add: world0_def)
  have to: "fst (communicate ?e protocol0 world0) =
              Inl (Timeout ''Timeout while waiting for Micro-controller output'')"
    by (rule communicate_timeout [OF k rc(1) nr t])
  have ok: "fst (communicate env0 protocol0 world0) = Inr None"
    by (rule communicate_awaits(2) [OF k rc(2)]) (simp_all add: env0_def)
  note a = communicate_read_end [OF k, where e = ?e and w = world0, unfolded r]
  note b = communicate_read_end(2) [OF k, where e = env0 and w = world0, unfolded r]
  have sf: "fst (communicate (env0\<lparr>SBus_send_rc := - 1\<rparr>) protocol0 world0) =
              Inl (Exception ''Failed to send execute command'')"
    by (rule communicate_send_failure(1) [OF k]) simp
  note c = communicate_read_end(2) [OF k, where e = "env0\<lparr>SBus_send_rc := - 1\<rparr>" and w = world0,
             unfolded r]
  from to a(1) a(2) a(3) a(4) [OF to] b ok c sf show ?thesis
    by (simp add: c0)
qed

lemma length_filter_card:
  "distinct xs \<Longrightarrow> length (filter P xs) = card (set xs \<inter> {x. P x})"
  by (metis distinct_length_filter Int_commute)

text \<open>
  Claim C4. A request that carries more than one of the recognised assignment headers is
  rejected with HTTPUnauthorized by \<open>get_mc_assignation_data\<close>, and one that carries more
  than one of the recognised deletion headers by \<open>get_mc_deletion_data\<close>. Both methods
  read the request headers only, so the rejection precedes every interaction with the
  cache, the store and the sandbox.
\<close>

theorem multiple_trigger_headers_rejected:
  "(1 < card (set available_assignation_headers \<inter> dom request_headers) \<longrightarrow>
      get_mc_assignation_data request_headers =
        Inl (HTTPUnauthorized
               (''Vertigo - The system can only set 1 microcontroller each time.'' @ [CHR 0x0A])))
   \<and> (1 < card (set available_deletion_headers \<inter> dom request_headers) \<longrightarrow>
      get_mc_deletion_data request_headers =
        Inl (HTTPUnauthorized
               (''Vertigo - The system can only delete 1 microcontroller each time.'' @ [CHR 0x0A])))"
proof -
  have da: "distinct available_assignation_headers"
    by (simp add: available_assignation_headers_def)
  have dd: "distinct available_deletion_headers"
    by (simp add: available_deletion_headers_def)
  have a: "length (filter (\<lambda>i. i \<in> dom request_headers) available_assignation_headers)
           = card (set available_assignation_headers \<inter> dom request_headers)"
    using length_filter_card [OF da, of "\<lambda>i. i \<in> dom request_headers"] by simp
  have d: "length (filter (\<lambda>i. i \<in> dom request_headers) available_deletion_headers)
           = card (set available_deletion_headers \<inter> dom request_headers)"
    using length_filter_card [OF dd, of "\<lambda>i. i \<in> dom request_headers"] by simp
  show ?thesis
    unfolding get_mc_assignation_data_def get_mc_deletion_data_def Let_def a d by simp
qed

theorem multiple_trigger_headers_rejected_witness:
  "1 < card (set available_assignation_headers \<inter>
             dom [''X-Vertigo-Onget'' \<mapsto> ''a.mc'', ''X-Vertigo-Onput'' \<mapsto> ''b.mc'',
                  ''X-Vertigo-Delete'' \<mapsto> ''1'', ''X-Vertigo-Onget-Delete'' \<mapsto> ''1''])
   \<and> 1 < card (set available_deletion_headers \<inter>
             dom [''X-Vertigo-Onget'' \<mapsto> ''a.mc'', ''X-Vertigo-Onput'' \<mapsto> ''b.mc'',
                  ''X-Vertigo-Delete'' \<mapsto> ''1'', ''X-Vertigo-Onget-Delete'' \<mapsto> ''1''])
   \<and> get_mc_assignation_data
        [''X-Vertigo-Onget'' \<mapsto> ''a.mc'', ''X-Vertigo-Onput'' \<mapsto> ''b.mc'',
         ''X-Vertigo-Delete'' \<mapsto> ''1'', ''X-Vertigo-Onget-Delete'' \<mapsto> ''1''] =
        Inl (HTTPUnauthorized
               (''Vertigo - The system can only set 1 microcontroller each time.'' @ [CHR 0x0A]))
   \<and> get_mc_deletion_data
        [''X-Vertigo-Onget'' \<mapsto> ''a.mc'', ''X-Vertigo-Onput'' \<mapsto> ''b.mc'',
         ''X-Vertigo-Delete'' \<mapsto> ''1'', ''X-Vertigo-Onget-Delete'' \<mapsto> ''1''] =
        Inl (HTTPUnauthorized
               (''Vertigo - The system can only delete 1 microcontroller each time.'' @ [CHR 0x0A]))"
proof -
  let ?h = "[''X-Vertigo-Onget'' \<mapsto> ''a.mc'', ''X-Vertigo-Onput'' \<mapsto> ''b.mc'',
             ''X-Vertigo-Delete'' \<mapsto> ''1'', ''X-Vertigo-Onget-Delete'' \<mapsto> ''1'']"
  have a: "1 < card (set available_assignation_headers \<inter> dom ?h)"
    by (simp add: available_assignation_headers_def)
  have d: "1 < card (set available_deletion_headers \<inter> dom ?h)"
    by (simp add: available_deletion_headers_def)
  from a d multiple_trigger_headers_rejected [of ?h] show ?thesis by blast
qed

text \<open>
  Claim C9. When the trigger metadata record of the object is present and holds a value for
  the trigger of the request method, \<open>get_microcontrollers\<close> returns True and sets the
  handler list to the comma-split of that value. For the unset default \<open>None\<close> the list
  is \<open>[None]\<close>: the comparison of the list with the string never holds.
\<close>

theorem get_microcontrollers_present_record:
  "read_metadata e (or_fp (gw_orig_resp g)) = Some md \<Longrightarrow>
   map_of md (''on'' @ lower (or_request_method (gw_orig_resp g))) = Some v \<Longrightarrow>
   get_microcontrollers e g = (Inr True, g\<lparr>gw_mc_list := Some (split_str CHR '','' v)\<rparr>)
   \<and> (v = ''None'' \<longrightarrow> gw_mc_list (snd (get_microcontrollers e g)) = Some [''None''])"
  by (auto simp: get_microcontrollers_def Let_def py_list_eq_str_def split_str_def)

theorem get_microcontrollers_present_record_witness:
  "read_metadata env0 (or_fp (gw_orig_resp (gw0\<lparr>gw_orig_resp := (gw_orig_resp gw0)\<lparr>or_request_method := ''PUT''\<rparr>\<rparr>))) =
     Some [(''onget'', ''a.mc''), (''onput'', ''None''), (''ondelete'', ''None''), (''ontimer'', ''None'')]
   \<and> map_of [(''onget'', ''a.mc''), (''onput'', ''None''), (''ondelete'', ''None''), (''ontimer'', ''None'')]
        (''on'' @ lower (or_request_method (gw_orig_resp
           (gw0\<lparr>gw_orig_resp := (gw_orig_resp gw0)\<lparr>or_request_method := ''PUT''\<rparr>\<rparr>)))) = Some ''None''
   \<and> fst (get_microcontrollers env0
            (gw0\<lparr>gw_orig_resp := (gw_orig_resp gw0)\<lparr>or_request_method := ''PUT''\<rparr>\<rparr>)) = Inr True
   \<and> gw_mc_list (snd (get_microcontrollers env0
            (gw0\<lparr>gw_orig_resp := (gw_orig_resp gw0)\<lparr>or_request_method := ''PUT''\<rparr>\<rparr>))) = Some [''None'']"
proof -
  let ?g = "gw0\<lparr>gw_orig_resp := (gw_orig_resp gw0)\<lparr>or_request_method := ''PUT''\<rparr>\<rparr>"
  let ?md = "[(''onget'', ''a.mc''), (''onput'', ''None''), (''ondelete'', ''None''), (''ontimer'', ''None'')]"
  have r: "read_metadata env0 (or_fp (gw_orig_resp ?g)) = Some ?md"
    by (simp add: env0_def)
  have m: "map_of ?md (''on'' @ lower (or_request_method (gw_orig_resp ?g))) = Some ''None''"
    by (simp add: lower_def lower_char_def)
  from get_microcontrollers_present_record [OF r m] r m show ?thesis
    by (simp add: split_str_def)
qed

lemma distinct_count_list:
  "distinct xs \<Longrightarrow> count_list xs x = (if x \<in> set xs then 1 else 0)"
  by (induction xs) auto

lemma docker_run_containers:
  "containers (snd (docker_run e name cmd w)) =
     (if name \<in> set (containers w) \<or> launch_rc e \<noteq> 0 then containers w
      else name # containers w)"
  by (simp add: docker_run_def Let_def)

lemma docker_run_rc:
  "fst (docker_run e name cmd w) =
     (if name \<in> set (containers w) then 125 else launch_rc e)"
  by (simp add: docker_run_def Let_def)

lemma start_container_containers:
  "containers (snd (start_container e g w)) =
     (if docker_container_name g \<in> set (containers w) \<or> launch_rc e \<noteq> 0 then containers w
      else docker_container_name g # containers w)"
  by (simp add: start_container_def Let_def split_beta docker_run_containers)

lemma start_container_result: "fst (start_container e g w) = Inr ()"
  by (simp add: start_container_def Let_def split_beta)

lemma start_container_failure_log:
  "fst (docker_run e (docker_container_name g) (docker_cmd g)
         (emit (LogInfo (''Vertigo - Starting container '' @ docker_container_name g @ '' ...'')) w)) \<noteq> 0 \<Longrightarrow>
   last (trace (snd (start_container e g w))) =
     LogInfo (''Vertigo - Container '' @ docker_container_name g @ '' is already started'')"
  by (simp add: start_container_def Let_def split_beta)

text \<open>
  Claim C7, as amended. \<open>start_container\<close> never raises: whatever the exit status of the
  launch, the call returns normally, and a failure of any cause is logged as "is already
  started" and leaves the set of sandboxes as it was. Two calls in succession raise no
  error, the second changes nothing, and at most one sandbox of that name runs afterwards,
  exactly one when the launch itself succeeds.
\<close>

theorem start_container_any_failure_tolerated:
  "distinct (containers w) \<Longrightarrow>
   fst (start_container e g w) = Inr ()
   \<and> fst (start_container e g (snd (start_container e g w))) = Inr ()
   \<and> (launch_rc e \<noteq> 0 \<longrightarrow>
        last (trace (snd (start_container e g w))) =
          LogInfo (''Vertigo - Container '' @ docker_container_name g @ '' is already started'')
        \<and> containers (snd (start_container e g w)) = containers w)
   \<and> containers (snd (start_container e g (snd (start_container e g w)))) =
       containers (snd (start_container e g w))
   \<and> count_list (containers (snd (start_container e g (snd (start_container e g w)))))
        (docker_container_name g) \<le> 1
   \<and> (launch_rc e = 0 \<longrightarrow>
        count_list (containers (snd (start_container e g (snd (start_container e g w)))))
          (docker_container_name g) = 1)"
proof -
  assume d: "distinct (containers w)"
  have c1: "count_list (containers w) (docker_container_name g) =
            (if docker_container_name g \<in> set (containers w) then 1 else 0)"
    using d by (simp add: distinct_count_list)
  have log: "launch_rc e \<noteq> 0 \<Longrightarrow>
        last (trace (snd (start_container e g w))) =
          LogInfo (''Vertigo - Container '' @ docker_container_name g @ '' is already started'')"
    by (rule start_container_failure_log) (simp add: docker_run_rc)
  show ?thesis
    using c1 log by (simp add: start_container_result start_container_containers)
qed

theorem start_container_any_failure_tolerated_witness:
  "distinct (containers world0)
   \<and> fst (start_container env0 gw0 (snd (start_container env0 gw0 world0))) = Inr ()
   \<and> count_list (containers (snd (start_container env0 gw0 (snd (start_container env0 gw0 world0)))))
        (docker_container_name gw0) = 1"
proof -
  have d: "distinct (containers world0)" by (simp add: world0_def)
  have l: "launch_rc env0 = 0" by (simp add: env0_def)
  from start_container_any_failure_tolerated [OF d, of env0 gw0] l d show ?thesis by blast
qed

text \<open>
  A launch that fails for a cause other than an existing name (status 1, no sandbox of that
  name) is not fatal: the call returns normally and no sandbox runs.
\<close>

theorem start_container_other_failure_counterexample:
  "launch_rc (env0\<lparr>launch_rc := 1\<rparr>) \<noteq> 0
   \<and> docker_container_name gw0 \<notin> set (containers world0)
   \<and> fst (start_container (env0\<lparr>launch_rc := 1\<rparr>) gw0 world0) = Inr ()
   \<and> containers (snd (start_container (env0\<lparr>launch_rc := 1\<rparr>) gw0 world0)) = []"
  by (simp add: start_container_def docker_run_def Let_def world0_def env0_def)



text \<open>
  Claim C6, as amended. A negative result of \<open>SBus.send\<close> is fatal: the invocation raises
  the send-failure exception and does not wait for a response.
\<close>

theorem send_failure_is_fatal:
  "descriptors_known (p_mc_md p) (p_mc_list p) \<Longrightarrow> SBus_send_rc e < 0 \<Longrightarrow>
   fst (communicate e p w) = Inl (Exception ''Failed to send execute command'')
   \<and> selects (trace (snd (snd (communicate e p w)))) = selects (trace w)"
  by (simp add: communicate_send_failure)

theorem send_failure_is_fatal_witness:
  "descriptors_known (p_mc_md protocol0) (p_mc_list protocol0)
   \<and> SBus_send_rc (env0\<lparr>SBus_send_rc := - 1\<rparr>) < 0
   \<and> fst (communicate (env0\<lparr>SBus_send_rc := - 1\<rparr>) protocol0 world0) =
       Inl (Exception ''Failed to send execute command'')
   \<and> selects (trace (snd (snd (communicate (env0\<lparr>SBus_send_rc := - 1\<rparr>) protocol0 world0)))) = 0"
proof -
  have k: "descriptors_known (p_mc_md protocol0) (p_mc_list protocol0)"
    by (simp add: protocol0_def MicroControllerInvocationProtocol_init_def descriptors_known_def
          MC_MAIN_HEADER_def MC_DEP_HEADER_def)
  have rc: "SBus_send_rc (env0\<lparr>SBus_send_rc := - 1\<rparr>) < 0" by simp
  have w: "selects (trace world0) = 0" by (simp add: world0_def)
  from send_failure_is_fatal [OF k rc, of world0] k rc w show ?thesis by simp
qed

text \<open>
  A result of \<open>SBus.send\<close> that is not zero but positive is not fatal: the invocation goes
  on to wait for the response and completes.
\<close>

theorem positive_send_result_counterexample:
  "SBus_send_rc (env0\<lparr>SBus_send_rc := 1\<rparr>) \<noteq> 0
   \<and> fst (communicate (env0\<lparr>SBus_send_rc := 1\<rparr>) protocol0 world0) = Inr None
   \<and> selects (trace (snd (snd (communicate (env0\<lparr>SBus_send_rc := 1\<rparr>) protocol0 world0)))) = 1"
proof -
  have k: "descriptors_known (p_mc_md protocol0) (p_mc_list protocol0)"
    by (simp add: protocol0_def MicroControllerInvocationProtocol_init_def descriptors_known_def
          MC_MAIN_HEADER_def MC_DEP_HEADER_def)
  have rc: "0 \<le> SBus_send_rc (env0\<lparr>SBus_send_rc := 1\<rparr>)" by simp
  have r: "select_ready (env0\<lparr>SBus_send_rc := 1\<rparr>)" by (simp add: env0_def)
  have o: "os_read (env0\<lparr>SBus_send_rc := 1\<rparr>) = ''{}''" by (simp add: env0_def)
  have w: "selects (trace world0) = 0" by (simp add: world0_def)
  from communicate_awaits(1) [OF k rc, of world0] communicate_awaits(2) [OF k rc r o, of world0] w
  show ?thesis by simp
qed




section \<open>The steps of execute_microcontrollers\<close>






lemma with_file_path_dependency [simp]:
  "dependency_exists e (with_file_path g) = dependency_exists e g"
  by (rule ext) (simp add: dependency_exists_def with_file_path_def)

lemma with_file_path_headers [simp]:
  "store_headers e (with_file_path g) = store_headers e g"
  by (rule ext) (simp add: store_headers_def with_file_path_def)

lemma with_file_path_store [simp]:
  "handler_exists e (with_file_path g) n = handler_exists e g n"
  "handler_resolves e (with_file_path g) n = handler_resolves e g n"
  "handler_described e (with_file_path g) n = handler_described e g n"
proof -
  show a: "handler_exists e (with_file_path g) n = handler_exists e g n"
    by (simp add: handler_exists_def with_file_path_def)
  show "handler_resolves e (with_file_path g) n = handler_resolves e g n"
    by (simp add: handler_resolves_def declared_dependencies_def a)
  show "handler_described e (with_file_path g) n = handler_described e g n"
    by (simp add: handler_described_def)
qed

lemma with_file_path_fields [simp]:
  "gw_req (with_file_path g) = gw_req g"
  "gw_orig_resp (with_file_path g) = gw_orig_resp g"
  "gw_conf (with_file_path g) = gw_conf g"
  "gw_scope (with_file_path g) = gw_scope g"
  "gw_current_server (with_file_path g) = gw_current_server g"
  "gw_mc_timeout (with_file_path g) = gw_mc_timeout g"
  "gw_mc_list (with_file_path g) = gw_mc_list g"
  "gw_file_path (with_file_path g) = Some (object_dir g)"
  by (simp_all add: with_file_path_def)








section \<open>The claims on execute_microcontrollers\<close>










end
